theory Spec2Isabelle
  imports Complex_Main
begin

section \<open>Values of the Python program\<close>

subsection \<open>Text\<close>

text \<open>
  Python text is kept as its UTF-8 bytes. The source uses a handful of characters beyond
  ASCII (the degree sign in the column labels, pictographs at the head of messages); each
  is named here by its encoding.
\<close>

definition deg :: string where
  "deg = [CHR 0xC2, CHR 0xB0]"

definition cross_mark :: string where
  "cross_mark = [CHR 0xE2, CHR 0x9D, CHR 0x8C]"

definition check_mark :: string where
  "check_mark = [CHR 0xE2, CHR 0x9C, CHR 0x85]"

definition warning_sign :: string where
  "warning_sign = [CHR 0xE2, CHR 0x9A, CHR 0xA0, CHR 0xEF, CHR 0xB8, CHR 0x8F]"

definition magnifier :: string where
  "magnifier = [CHR 0xF0, CHR 0x9F, CHR 0x94, CHR 0x8D]"

definition wrench :: string where
  "wrench = [CHR 0xF0, CHR 0x9F, CHR 0x94, CHR 0xA7]"

definition digit_char :: "nat \<Rightarrow> char" where
  "digit_char d = ''0123456789'' ! d"

text \<open>\<open>str(n)\<close> for a natural number: its decimal digits, most significant first.\<close>

fun str_nat :: "nat \<Rightarrow> string" where
  "str_nat n = (if n < 10 then [digit_char n] else str_nat (n div 10) @ [digit_char (n mod 10)])"

declare str_nat.simps [simp del]

definition str_int :: "int \<Rightarrow> string" where
  "str_int i = (if i < 0 then ''-'' @ str_nat (nat (- i)) else str_nat (nat i))"

text \<open>
  \<open>repr\<close> of a string, for labels free of quote and backslash characters (as the four
  required column labels are): the text between single quotes.
\<close>

definition py_repr :: "string \<Rightarrow> string" where
  "py_repr s = [CHR 0x27] @ s @ [CHR 0x27]"

fun join :: "string \<Rightarrow> string list \<Rightarrow> string" where
  "join sep [] = []"
| "join sep [x] = x"
| "join sep (x # y # ys) = x @ sep @ join sep (y # ys)"

definition repr_list :: "string list \<Rightarrow> string" where
  "repr_list xs = ''['' @ join '', '' (map py_repr xs) @ '']''"

definition repr_counts :: "(string \<times> nat) list \<Rightarrow> string" where
  "repr_counts kvs = ''{'' @ join '', '' (map (\<lambda>(k, v). py_repr k @ '': '' @ str_nat v) kvs) @ ''}''"

subsection \<open>Floating-point values\<close>

text \<open>
  A Python float is a finite value, a signed zero, an infinity or NaN. Finite doubles are
  dyadic rationals, so \<open>Finite q\<close> carries the exact value; \<open>Finite 0\<close> is positive zero.
  Comparisons of floats are exact and follow IEEE 754: every comparison with NaN is false.
  Arithmetic rounds, and is therefore left to the numeric library (see \<open>numpy\<close> below).
\<close>

datatype pyfloat = Finite rat | NegZero | PosInf | NegInf | NaN

fun rat_of :: "pyfloat \<Rightarrow> rat" where
  "rat_of (Finite q) = q"
| "rat_of _ = 0"

fun flt :: "pyfloat \<Rightarrow> pyfloat \<Rightarrow> bool" where
  "flt NaN _ = False"
| "flt _ NaN = False"
| "flt PosInf _ = False"
| "flt _ NegInf = False"
| "flt NegInf _ = True"
| "flt _ PosInf = True"
| "flt a b = (rat_of a < rat_of b)"

definition fgt :: "pyfloat \<Rightarrow> pyfloat \<Rightarrow> bool" where
  "fgt a b = flt b a"

text \<open>
  \<open>format(x, '.kf')\<close>: the exact value rounded to \<open>k\<close> decimals, ties to the even digit,
  with the sign of \<open>x\<close> kept even when the digits are all zero.
\<close>

definition round_half_even :: "rat \<Rightarrow> nat" where
  "round_half_even r =
     (let f = \<lfloor>r\<rfloor>; d = r - of_int f
      in nat (if d < 1 / 2 then f else if 1 / 2 < d then f + 1
              else if even f then f else f + 1))"

definition zero_pad :: "nat \<Rightarrow> string \<Rightarrow> string" where
  "zero_pad k s = replicate (k - length s) CHR ''0'' @ s"

definition format_fixed :: "nat \<Rightarrow> rat \<Rightarrow> string" where
  "format_fixed k q =
     (let n = round_half_even (\<bar>q\<bar> * 10 ^ k)
      in str_nat (n div 10 ^ k) @ (if k = 0 then [] else ''.'' @ zero_pad k (str_nat (n mod 10 ^ k))))"

fun format_f :: "nat \<Rightarrow> pyfloat \<Rightarrow> string" where
  "format_f k (Finite q) = (if q < 0 then ''-'' else []) @ format_fixed k q"
| "format_f k NegZero = ''-'' @ format_fixed k 0"
| "format_f k PosInf = ''inf''"
| "format_f k NegInf = ''-inf''"
| "format_f k NaN = ''nan''"

subsection \<open>Exceptions\<close>

text \<open>
  The subclasses of \<open>Exception\<close> that the program can meet, each with its message.
  \<open>st.stop()\<close> is not among them: Streamlit's stop signal derives from \<open>BaseException\<close>,
  passes through every \<open>except Exception\<close> and ends the script run; it is the \<open>Stopped\<close>
  outcome below.
\<close>

datatype exn =
    ValueError string
  | KeyError string
  | IndexError string
  | TypeError string
  | FileNotFoundError string
  | ImportError string
  | OtherError string

fun exn_str :: "exn \<Rightarrow> string" where
  "exn_str (ValueError m) = m"
| "exn_str (KeyError k) = py_repr k"
| "exn_str (IndexError m) = m"
| "exn_str (TypeError m) = m"
| "exn_str (FileNotFoundError m) = m"
| "exn_str (ImportError m) = m"
| "exn_str (OtherError m) = m"

datatype 'a run = Stopped | Finished 'a

subsection \<open>Frames\<close>

text \<open>
  A cell of a frame: a float, a timestamp (microseconds since the epoch, the resolution of
  \<open>datetime\<close>), the missing timestamp \<open>NaT\<close>, \<open>None\<close>, text, or a geometry (kept as
  its serialised text; the program never looks inside one).
\<close>

datatype cell = CFloat pyfloat | CTime int | CNaT | CNone | CStr string | CGeom string

datatype dtype = Float64 | Datetime64 | Object | GeometryDtype

record series =
  dtype :: dtype
  cells :: "cell list"

text \<open>
  The time-series \<open>DataFrame\<close>: its labelled columns, in order. \<open>pd.DataFrame(data)\<close>
  raises \<open>ValueError\<close> unless all columns of \<open>data\<close> have one length.
\<close>

type_synonym dataframe = "(string \<times> series) list"

definition columns :: "dataframe \<Rightarrow> string list" where
  "columns df = map fst df"

definition df_len :: "dataframe \<Rightarrow> nat" where
  "df_len df = (case df of [] \<Rightarrow> 0 | (_, s) # _ \<Rightarrow> length (cells s))"

definition shape :: "dataframe \<Rightarrow> nat \<times> nat" where
  "shape df = (df_len df, length df)"

definition pd_DataFrame :: "(string \<times> series) list \<Rightarrow> exn + dataframe" where
  "pd_DataFrame data =
     (if list_all (\<lambda>(_, s). length (cells s) = df_len data) data then Inr data
      else Inl (ValueError ''All arrays must be of the same length''))"

text \<open>\<open>df[label]\<close>: the column, or \<open>KeyError\<close>.\<close>

definition getitem :: "dataframe \<Rightarrow> string \<Rightarrow> exn + series" where
  "getitem df label = (case map_of df label of None \<Rightarrow> Inl (KeyError label) | Some s \<Rightarrow> Inr s)"

text \<open>\<open>s.iloc[-1]\<close>: the last cell, or \<open>IndexError\<close> on an empty column.\<close>

definition iloc_last :: "series \<Rightarrow> exn + cell" where
  "iloc_last s =
     (if cells s = [] then Inl (IndexError ''single positional indexer is out-of-bounds'')
      else Inr (last (cells s)))"

text \<open>\<open>isnull\<close>: NaN, \<open>NaT\<close> and \<open>None\<close> are missing; infinities are not.\<close>

fun isnull :: "cell \<Rightarrow> bool" where
  "isnull (CFloat NaN) = True"
| "isnull CNaT = True"
| "isnull CNone = True"
| "isnull _ = False"

definition isnull_sum :: "dataframe \<Rightarrow> (string \<times> nat) list" where
  "isnull_sum df = map (\<lambda>(label, s). (label, length (filter isnull (cells s)))) df"

definition is_datetime64_any_dtype :: "series \<Rightarrow> bool" where
  "is_datetime64_any_dtype s = (dtype s = Datetime64)"

text \<open>
  \<open>s.min()\<close> and \<open>s.max()\<close> of a float column skip NaN and give NaN when nothing is left.
\<close>

fun floats_of :: "cell list \<Rightarrow> pyfloat list" where
  "floats_of [] = []"
| "floats_of (CFloat NaN # cs) = floats_of cs"
| "floats_of (CFloat x # cs) = x # floats_of cs"
| "floats_of (_ # cs) = floats_of cs"

definition series_min :: "series \<Rightarrow> pyfloat" where
  "series_min s = (case floats_of (cells s) of [] \<Rightarrow> NaN
     | x # xs \<Rightarrow> foldl (\<lambda>m y. if flt y m then y else m) x xs)"

definition series_max :: "series \<Rightarrow> pyfloat" where
  "series_max s = (case floats_of (cells s) of [] \<Rightarrow> NaN
     | x # xs \<Rightarrow> foldl (\<lambda>m y. if flt m y then y else m) x xs)"

text \<open>
  The regions \<open>GeoDataFrame\<close>: one row per feature of the boundary file. A row maps
  column labels to cells. \<open>empty\<close> holds when either axis has length zero.
\<close>

type_synonym row = "(string \<times> cell) list"

record geodataframe =
  gcolumns :: "string list"
  features :: "row list"

definition gdf_empty :: "geodataframe \<Rightarrow> bool" where
  "gdf_empty g = (features g = [] \<or> gcolumns g = [])"

text \<open>\<open>r[label]\<close> on a row, and \<open>r.get(label, default)\<close>.\<close>

definition row_getitem :: "row \<Rightarrow> string \<Rightarrow> exn + cell" where
  "row_getitem r label = (case map_of r label of None \<Rightarrow> Inl (KeyError label) | Some c \<Rightarrow> Inr c)"

definition row_get :: "row \<Rightarrow> string \<Rightarrow> cell \<Rightarrow> cell" where
  "row_get r label dflt = (case map_of r label of None \<Rightarrow> dflt | Some c \<Rightarrow> c)"

text \<open>
  \<open>g[label] = values\<close>: every row receives its value under \<open>label\<close> (replacing an old
  one); \<open>ValueError\<close> when the number of values is not the number of rows.
\<close>

definition row_set :: "row \<Rightarrow> string \<Rightarrow> cell \<Rightarrow> row" where
  "row_set r label c = (if label \<in> fst ` set r then map (\<lambda>(k, v). if k = label then (k, c) else (k, v)) r
                        else r @ [(label, c)])"

definition setitem :: "geodataframe \<Rightarrow> string \<Rightarrow> pyfloat list \<Rightarrow> exn + geodataframe" where
  "setitem g label vs =
     (if length vs \<noteq> length (features g)
      then Inl (ValueError ''Length of values does not match length of index'')
      else Inr \<lparr>gcolumns = (if label \<in> set (gcolumns g) then gcolumns g else gcolumns g @ [label]),
                features = map (\<lambda>(r, v). row_set r label (CFloat v)) (zip (features g) vs)\<rparr>)"

subsection \<open>What the page shows\<close>

datatype json =
    JStr string
  | JInt int
  | JFloat pyfloat
  | JCell cell
  | JList "json list"
  | JDict "(string \<times> json) list"

text \<open>
  A folium map is the list of layers added to it (its centre and zoom are constants of
  the script). A tooltip layer carries the simplified geometry as JSON and its text.
\<close>

datatype layer = ChoroplethLayer geodataframe | GeoJsonLayer string string

type_synonym folium_map = "layer list"

text \<open>
  One constructor per Streamlit call of the source, in the order of the calls. \<open>Col\<close> and
  \<open>Sidebar\<close> are calls on a column or on the sidebar, \<open>InTab\<close> a call made inside a
  \<open>with tab\<close> block, \<open>LoggerInfo\<close> a line of the Python logger.
\<close>

datatype ui =
    StSuccess string
  | StError string
  | StWarning string
  | StInfo string
  | StWrite string
  | StJson json
  | StCode string
  | StTitle string
  | StSubheader string
  | StMarkdown string
  | StColumns nat
  | StTabs "string list"
  | StLineChart dataframe
  | StDataframe dataframe
  | StGeoDataframe geodataframe
  | StFolium folium_map
  | ColMetric nat string string
  | ColError nat string
  | SidebarCheckbox string
  | SidebarSubheader string
  | SidebarWrite string
  | SidebarSuccess string
  | LoggerInfo string
  | InTab nat ui

section \<open>The libraries the scripts call\<close>

text \<open>
  NumPy, as far as the scripts use it. \<open>'g\<close> is the state of the global generator
  behind \<open>np.random\<close>: \<open>random_seed\<close> replaces it, and one draw of \<open>random_normal\<close>
  or \<open>random_uniform\<close> (location and scale, or the two bounds, first) reads and advances
  it. \<open>linspace_at a b n i\<close> is sample \<open>i\<close> of \<open>np.linspace(a, b, n)\<close>. Floating-point
  arithmetic and the elementary functions round, so they are the library's as well.
\<close>

record 'g numpy =
  random_seed :: "nat \<Rightarrow> 'g"
  random_normal :: "pyfloat \<Rightarrow> pyfloat \<Rightarrow> 'g \<Rightarrow> pyfloat \<times> 'g"
  random_uniform :: "pyfloat \<Rightarrow> pyfloat \<Rightarrow> 'g \<Rightarrow> pyfloat \<times> 'g"
  linspace_at :: "pyfloat \<Rightarrow> pyfloat \<Rightarrow> nat \<Rightarrow> nat \<Rightarrow> pyfloat"
  np_sin :: "pyfloat \<Rightarrow> pyfloat"
  np_cos :: "pyfloat \<Rightarrow> pyfloat"
  np_pi :: pyfloat
  fadd :: "pyfloat \<Rightarrow> pyfloat \<Rightarrow> pyfloat"
  fmul :: "pyfloat \<Rightarrow> pyfloat \<Rightarrow> pyfloat"

definition linspace :: "'g numpy \<Rightarrow> pyfloat \<Rightarrow> pyfloat \<Rightarrow> nat \<Rightarrow> pyfloat list" where
  "linspace np a b n = map (linspace_at np a b n) [0..<n]"

text \<open>An array of \<open>n\<close> draws (\<open>size=n\<close>): the generator is read \<open>n\<close> times in sequence.\<close>

fun draw :: "('g \<Rightarrow> pyfloat \<times> 'g) \<Rightarrow> nat \<Rightarrow> 'g \<Rightarrow> pyfloat list \<times> 'g" where
  "draw d 0 g = ([], g)"
| "draw d (Suc n) g = (let (x, g1) = d g; (xs, g2) = draw d n g1 in (x # xs, g2))"

text \<open>
  What else the rendering code takes from Python and its libraries: formatting a cell
  that is not a float with \<open>'.1f'\<close> (decided by the cell's own class), \<open>str\<close> of a cell
  that is not text, the text of \<open>s.min()\<close> and of \<open>s.max()\<close> of a column, whether
  \<open>st.line_chart\<close> raises on a frame, \<open>df.describe()\<close>, and the version texts.
\<close>

record ext =
  format_other :: "cell \<Rightarrow> exn + string"
  str_cell :: "cell \<Rightarrow> string"
  str_min :: "series \<Rightarrow> exn + string"
  str_max :: "series \<Rightarrow> exn + string"
  line_chart_raises :: "dataframe \<Rightarrow> exn option"
  describe :: "dataframe \<Rightarrow> dataframe"
  sys_version :: string
  streamlit_version :: string
  pandas_version :: string
  numpy_version :: string

text \<open>\<open>f"{c:.1f}"\<close> for a cell \<open>c\<close>.\<close>

fun format_1f :: "ext \<Rightarrow> cell \<Rightarrow> exn + string" where
  "format_1f x (CFloat v) = Inr (format_f 1 v)"
| "format_1f x c = format_other x c"

text \<open>
  \<open>traceback.format_exc()\<close>: its last line, the exception's class and message (the frame
  lines before it are left out).
\<close>

fun exn_class :: "exn \<Rightarrow> string" where
  "exn_class (ValueError m) = ''ValueError''"
| "exn_class (KeyError k) = ''KeyError''"
| "exn_class (IndexError m) = ''IndexError''"
| "exn_class (TypeError m) = ''TypeError''"
| "exn_class (FileNotFoundError m) = ''FileNotFoundError''"
| "exn_class (ImportError m) = ''ImportError''"
| "exn_class (OtherError m) = ''Exception''"

definition format_exc :: "exn \<Rightarrow> string" where
  "format_exc e = exn_class e @ '': '' @ exn_str e"

section \<open>dashboard.py\<close>

text \<open>
  Every function below returns the Streamlit calls it makes, in order, next to its value.
  \<open>debug_mode\<close> is \<open>st.session_state.debug_mode\<close>.
\<close>

definition debug_print :: "bool \<Rightarrow> string \<Rightarrow> json option \<Rightarrow> ui list" where
  "debug_print debug_mode message data =
     (if debug_mode
      then [StWrite (magnifier @ '' DEBUG: '' @ message)]
           @ (case data of None \<Rightarrow> [] | Some d \<Rightarrow> [StJson d])
           @ [LoggerInfo (''DEBUG: '' @ message)]
      else [])"

definition minute :: int where
  "minute = 60000000"

definition temperature_label :: string where
  "temperature_label = ''Temperature ('' @ deg @ ''C)''"

definition humidity_label :: string where
  "humidity_label = ''Humidity (%)''"

definition wind_label :: string where
  "wind_label = ''Wind Speed (km/h)''"

text \<open>
  Lines 30 and 35 to 37 of \<open>generate_weather_data\<close>: the generator is seeded with 42, then
  each array is a sinusoid over \<open>linspace\<close> plus \<open>num_points\<close> normal draws, temperature
  first, humidity second, wind last. The literal \<open>0.7\<close> is the double nearest to 7/10.
\<close>

definition weather_arrays ::
  "'g numpy \<Rightarrow> nat \<Rightarrow> 'g \<Rightarrow> (pyfloat list \<times> pyfloat list \<times> pyfloat list) \<times> 'g" where
  "weather_arrays np num_points g =
     (let g0 = random_seed np 42;
          (zt, g1) = draw (random_normal np (Finite 0) (Finite (1 / 2))) num_points g0;
          temperature_data =
            map2 (fadd np)
              (map (\<lambda>a. fadd np (Finite 20) (fmul np (Finite 5) (np_sin np a)))
                 (linspace np (Finite 0) (fmul np (Finite 3) (np_pi np)) num_points)) zt;
          (zh, g2) = draw (random_normal np (Finite 0) (Finite 1)) num_points g1;
          humidity_data =
            map2 (fadd np)
              (map (\<lambda>a. fadd np (Finite 50) (fmul np (Finite 10) (np_cos np a)))
                 (linspace np (Finite 0) (fmul np (Finite 2) (np_pi np)) num_points)) zh;
          (zw, g3) = draw (random_normal np (Finite 0)
                       (Finite (3152519739159347 / 4503599627370496))) num_points g2;
          wind_data =
            map2 (fadd np)
              (map (\<lambda>a. fadd np (Finite 10) (fmul np (Finite 3) (np_sin np a)))
                 (linspace np (Finite 0) (fmul np (Finite 4) (np_pi np)) num_points)) zw
      in ((temperature_data, humidity_data, wind_data), g3))"

text \<open>Lines 40 to 45: the range checks, in the order of the source.\<close>

definition validate_ranges :: "pyfloat list \<Rightarrow> pyfloat list \<Rightarrow> pyfloat list \<Rightarrow> exn option" where
  "validate_ranges temperature_data humidity_data wind_data =
     (if list_ex (\<lambda>v. flt v (Finite (- 50))) temperature_data
         \<or> list_ex (\<lambda>v. fgt v (Finite 60)) temperature_data
      then Some (ValueError ''Temperature data contains unrealistic values'')
      else if list_ex (\<lambda>v. flt v (Finite 0)) humidity_data
         \<or> list_ex (\<lambda>v. fgt v (Finite 100)) humidity_data
      then Some (ValueError ''Humidity data contains unrealistic values'')
      else if list_ex (\<lambda>v. flt v (Finite 0)) wind_data
      then Some (ValueError ''Wind speed data contains negative values'')
      else None)"

definition float_series :: "pyfloat list \<Rightarrow> series" where
  "float_series vs = \<lparr>dtype = Float64, cells = map CFloat vs\<rparr>"

definition range_json :: "series \<Rightarrow> json" where
  "range_json s = JList [JFloat (series_min s), JFloat (series_max s)]"

text \<open>
  \<open>now i\<close> is the reading of \<open>datetime.now()\<close> in iteration \<open>i\<close> of the comprehension
  of line 32, which calls it once per element. The result is the calls made, the frame or
  \<open>None\<close>, and the generator's state afterwards.
\<close>

definition generate_weather_data ::
  "'g numpy \<Rightarrow> (nat \<Rightarrow> int) \<Rightarrow> bool \<Rightarrow> 'g \<Rightarrow> ui list \<times> dataframe option \<times> 'g" where
  "generate_weather_data np now debug_mode g =
     (let num_points = 100;
          time_index = map (\<lambda>i. now i - (99 - int i) * minute) [0..<num_points];
          ((temperature_data, humidity_data, wind_data), g') = weather_arrays np num_points g;
          started = debug_print debug_mode ''Generating synthetic weather data...'' None;
          body =
            (case validate_ranges temperature_data humidity_data wind_data of
               Some e \<Rightarrow> Inl e
             | None \<Rightarrow>
                 pd_DataFrame
                   [(''Time'', \<lparr>dtype = Datetime64, cells = map CTime time_index\<rparr>),
                    (temperature_label, float_series temperature_data),
                    (humidity_label, float_series humidity_data),
                    (wind_label, float_series wind_data)])
      in case body of
           Inr df \<Rightarrow>
             (started @
              debug_print debug_mode ''Weather data generated successfully''
                (Some (JDict
                   [(''shape'', JList [JInt (int (fst (shape df))), JInt (int (snd (shape df)))]),
                    (''columns'', JList (map JStr (columns df))),
                    (''temp_range'', range_json (float_series temperature_data)),
                    (''humidity_range'', range_json (float_series humidity_data)),
                    (''wind_range'', range_json (float_series wind_data))])),
              Some df, g')
         | Inl e \<Rightarrow>
             (started @
              [StError (cross_mark @ '' Error generating weather data: '' @ exn_str e)] @
              (if debug_mode then [StCode (format_exc e)] else []),
              None, g'))"

definition required_columns :: "string list" where
  "required_columns = [''Time'', temperature_label, humidity_label, wind_label]"

definition validate_dataframe :: "bool \<Rightarrow> dataframe \<Rightarrow> ui list \<times> bool" where
  "validate_dataframe debug_mode df =
     (let started = debug_print debug_mode ''Validating DataFrame...'' None;
          missing_columns = filter (\<lambda>col. col \<notin> set (columns df)) required_columns;
          nan_counts = isnull_sum df;
          nan_warning =
            (if list_ex (\<lambda>(_, n). n \<noteq> 0) nan_counts
             then [StWarning (warning_sign @ '' Found NaN values: '' @ repr_counts nan_counts)]
             else []);
          failed = (\<lambda>before e.
            (started @ before @
             [StError (cross_mark @ '' DataFrame validation failed: '' @ exn_str e)] @
             (if debug_mode then [StCode (format_exc e)] else []), False))
      in if missing_columns \<noteq> []
         then failed [] (ValueError (''Missing required columns: '' @ repr_list missing_columns))
         else case getitem df ''Time'' of
                Inl e \<Rightarrow> failed nan_warning e
              | Inr time_col \<Rightarrow>
                  (started @ nan_warning @
                   (if \<not> is_datetime64_any_dtype time_col
                    then [StWarning (warning_sign @ '' Time column is not datetime type'')]
                    else []) @
                   debug_print debug_mode ''DataFrame validation completed successfully'' None,
                   True))"

text \<open>\<open>str(c)\<close> of a cell, and \<open>sys.version.split()[0]\<close>.\<close>

fun py_str :: "ext \<Rightarrow> cell \<Rightarrow> string" where
  "py_str x (CStr t) = t"
| "py_str x c = str_cell x c"

definition python_version :: "ext \<Rightarrow> string" where
  "python_version x = takeWhile (\<lambda>c. c \<noteq> CHR '' '') (sys_version x)"

text \<open>
  \<open>df[label].iloc[-1]\<close> formatted with \<open>'.1f'\<close>: what each of the three "Current Values"
  blocks computes before it shows anything, with the exceptions it can raise.
\<close>

definition current_value :: "ext \<Rightarrow> dataframe \<Rightarrow> string \<Rightarrow> exn + string" where
  "current_value x df label =
     (case getitem df label of
        Inl e \<Rightarrow> Inl e
      | Inr s \<Rightarrow> (case iloc_last s of Inl e \<Rightarrow> Inl e | Inr c \<Rightarrow> format_1f x c))"

text \<open>
  One \<open>try\<close> block of lines 126 to 148: column \<open>col\<close>, the column label, the quantity's
  name as the messages spell it (lower case, then capitalised) and its unit.
\<close>

definition dashboard_metric ::
  "ext \<Rightarrow> bool \<Rightarrow> dataframe \<Rightarrow> nat \<Rightarrow> string \<Rightarrow> string \<Rightarrow> string \<Rightarrow> string \<Rightarrow> ui list" where
  "dashboard_metric x debug_mode df col label what What unit =
     (case current_value x df label of
        Inr text \<Rightarrow>
          [ColMetric col label text] @
          debug_print debug_mode (''Current '' @ what @ '': '' @ text @ unit) None
      | Inl e \<Rightarrow>
          [ColError col (''Error loading '' @ what @ '': '' @ exn_str e)] @
          debug_print debug_mode (What @ '' loading error: '' @ exn_str e) None)"

text \<open>\<open>df[[l1, l2, ...]]\<close> and \<open>df.set_index('Time')[[...]]\<close>, the chart's data.\<close>

fun select_columns :: "dataframe \<Rightarrow> string list \<Rightarrow> exn + dataframe" where
  "select_columns df [] = Inr []"
| "select_columns df (l # ls) =
     (case getitem df l of
        Inl e \<Rightarrow> Inl e
      | Inr s \<Rightarrow> (case select_columns df ls of Inl e \<Rightarrow> Inl e | Inr r \<Rightarrow> Inr ((l, s) # r)))"

definition chart_data :: "dataframe \<Rightarrow> exn + dataframe" where
  "chart_data df =
     (case getitem df ''Time'' of
        Inl e \<Rightarrow> Inl e
      | Inr t \<Rightarrow>
          (case select_columns df [temperature_label, humidity_label, wind_label] of
             Inl e \<Rightarrow> Inl e
           | Inr r \<Rightarrow> Inr ((''Time'', t) # r)))"

text \<open>
  Lines 164 to 170, the summary shown in debug mode: the calls made, and the exception
  that ended them, if any (it reaches the outer handler of \<open>show_dashboard\<close>).
\<close>

definition data_summary :: "ext \<Rightarrow> dataframe \<Rightarrow> ui list \<times> exn option" where
  "data_summary x df =
     (let head = [StMarkdown ''---'', StSubheader (wrench @ '' Data Summary''),
                  StWrite (''**Data Points:** '' @ str_nat (df_len df))]
      in case getitem df ''Time'' of
           Inl e \<Rightarrow> (head, Some e)
         | Inr t \<Rightarrow>
             (case str_min x t of
                Inl e \<Rightarrow> (head, Some e)
              | Inr lo \<Rightarrow>
                  (case str_max x t of
                     Inl e \<Rightarrow> (head, Some e)
                   | Inr hi \<Rightarrow>
                       (head @ [StWrite (''**Time Range:** '' @ lo @ '' to '' @ hi),
                                StWrite ''**Statistics:**'', StDataframe (describe x df)],
                        None))))"

text \<open>\<open>df\<close> is the module's global, \<open>None\<close> or a frame.\<close>

definition show_dashboard :: "ext \<Rightarrow> bool \<Rightarrow> dataframe option \<Rightarrow> ui list" where
  "show_dashboard x debug_mode df_opt =
     [StTitle ''Weather Dashboard''] @
     (case df_opt of
        None \<Rightarrow> [StError (cross_mark @ '' No data available to display'')]
      | Some df \<Rightarrow>
          [StSubheader ''Current Values'', StColumns 3] @
          dashboard_metric x debug_mode df 1 temperature_label
            ''temperature'' ''Temperature'' (deg @ ''C'') @
          dashboard_metric x debug_mode df 2 humidity_label ''humidity'' ''Humidity'' ''%'' @
          dashboard_metric x debug_mode df 3 wind_label ''wind speed'' ''Wind speed'' '' km/h'' @
          [StMarkdown ''---'', StSubheader ''Trends Over Time''] @
          (let chart_failed = (\<lambda>e.
                 [StError (cross_mark @ '' Error displaying chart: '' @ exn_str e)] @
                 (if debug_mode then [StCode (format_exc e)] else []))
           in case chart_data df of
                Inl e \<Rightarrow> chart_failed e
              | Inr cd \<Rightarrow>
                  (case line_chart_raises x cd of
                     Some e \<Rightarrow> chart_failed e
                   | None \<Rightarrow> [StLineChart cd] @
                       debug_print debug_mode ''Chart displayed successfully'' None)) @
          (case (if debug_mode then data_summary x df else ([], None)) of
             (shown, None) \<Rightarrow>
               shown @ [StSuccess (check_mark @ '' Dashboard displayed successfully'')]
           | (shown, Some e) \<Rightarrow>
               shown @ [StError (cross_mark @ '' Error displaying dashboard: '' @ exn_str e)] @
               (if debug_mode then [StCode (format_exc e)] else [])))"

text \<open>
  The module's top level, run when the file is the main script (\<open>is_main\<close>) or imported.
  \<open>session\<close> is \<open>debug_mode\<close> of the session state before the run (\<open>None\<close> when the key
  is absent), \<open>checkbox\<close> what the sidebar checkbox returns. A finished run leaves the
  global \<open>df\<close>, the session's \<open>debug_mode\<close> and the generator's state.
\<close>

definition dashboard_module ::
  "'g numpy \<Rightarrow> ext \<Rightarrow> (nat \<Rightarrow> int) \<Rightarrow> bool option \<Rightarrow> bool \<Rightarrow> bool \<Rightarrow> 'g
     \<Rightarrow> ui list \<times> (dataframe \<times> bool \<times> 'g) run" where
  "dashboard_module np x now session is_main checkbox g =
     (let debug_mode = (case session of None \<Rightarrow> False | Some b \<Rightarrow> b);
          (generated, df_opt, g') = generate_weather_data np now debug_mode g
      in case df_opt of
           None \<Rightarrow>
             (generated @
              [StError (cross_mark @
                 '' Failed to generate weather data. Please check the error messages above.'')],
              Stopped)
         | Some df \<Rightarrow>
             (let (validated, ok) = validate_dataframe debug_mode df
              in if \<not> ok
                 then (generated @ validated @
                       [StError (cross_mark @
                          '' Data validation failed. Please check the error messages above.'')],
                       Stopped)
                 else if is_main
                 then (generated @ validated @
                       [SidebarCheckbox (wrench @ '' Debug Mode'')] @
                       (if checkbox
                        then [SidebarSubheader (wrench @ '' System Info''),
                              SidebarWrite (''Python: '' @ python_version x),
                              SidebarWrite (''Streamlit: '' @ streamlit_version x),
                              SidebarWrite (''Pandas: '' @ pandas_version x),
                              SidebarWrite (''Numpy: '' @ numpy_version x)]
                        else []) @
                       show_dashboard x checkbox (Some df),
                       Finished (df, checkbox, g'))
                 else (generated @ validated, Finished (df, debug_mode, g'))))"

section \<open>weather_map_dashboard.py\<close>

text \<open>
  What the map script takes from outside: whether \<open>import dashboard\<close> fails to find or
  load the module (\<open>ImportError\<close> with its text), what \<open>gpd.read_file\<close> returns or raises
  for the boundary file, whether \<open>folium.Map\<close>, \<open>folium.Choropleth\<close>, \<open>folium.GeoJson\<close>
  (given the geometry's JSON and the tooltip's text) and \<open>st_folium\<close> raise, the JSON of a
  simplified geometry, the mean of a float column, and the memory estimates in KB.
\<close>

record mapenv =
  import_error :: "string option"
  read_file :: "exn + geodataframe"
  folium_Map_raises :: "exn option"
  choropleth_raises :: "geodataframe \<Rightarrow> exn option"
  simplify_to_json :: "cell \<Rightarrow> exn + string"
  geojson_raises :: "string \<Rightarrow> string \<Rightarrow> exn option"
  st_folium_raises :: "folium_map \<Rightarrow> exn option"
  series_mean :: "pyfloat list \<Rightarrow> pyfloat"
  gdf_memory_kb :: "geodataframe \<Rightarrow> pyfloat"
  df_memory_kb :: "dataframe \<Rightarrow> pyfloat"

text \<open>
  A section of the script either ends the run with \<open>st.stop()\<close> or hands its result to the
  next one; what it showed stays on the page either way.
\<close>

definition then_run :: "ui list \<times> 'a run \<Rightarrow> ('a \<Rightarrow> ui list \<times> 'b run) \<Rightarrow> ui list \<times> 'b run" where
  "then_run p f =
     (case p of
        (shown, Stopped) \<Rightarrow> (shown, Stopped)
      | (shown, Finished a) \<Rightarrow> (let (more, r) = f a in (shown @ more, r)))"

definition traceback_code :: "bool \<Rightarrow> exn \<Rightarrow> ui list" where
  "traceback_code debug_mode e = (if debug_mode then [StCode (format_exc e)] else [])"

text \<open>Lines 13 to 18: importing \<open>dashboard\<close> runs its top level, which may stop the run.\<close>

definition import_dashboard ::
  "'g numpy \<Rightarrow> ext \<Rightarrow> mapenv \<Rightarrow> (nat \<Rightarrow> int) \<Rightarrow> bool option \<Rightarrow> 'g
     \<Rightarrow> ui list \<times> (dataframe \<times> bool \<times> 'g) run" where
  "import_dashboard np x w now session g =
     (case import_error w of
        Some e \<Rightarrow> ([StError (cross_mark @ '' Failed to import dashboard module: '' @ e)], Stopped)
      | None \<Rightarrow>
          then_run (dashboard_module np x now session False False g)
            (\<lambda>module. ([StSuccess (check_mark @ '' Successfully imported dashboard module'')],
                        Finished module)))"

text \<open>\<open>s.unique()\<close>: the distinct values, each at its first occurrence.\<close>

definition unique :: "'a list \<Rightarrow> 'a list" where
  "unique xs = rev (remdups (rev xs))"

definition geojson_file :: string where
  "geojson_file = ''singapore_regions.geojson''"

text \<open>Lines 35 to 56.\<close>

definition load_regions :: "mapenv \<Rightarrow> bool \<Rightarrow> ui list \<times> geodataframe run" where
  "load_regions w debug_mode =
     (let started = debug_print debug_mode ''Loading Singapore regions GeoJSON file...'' None
      in case read_file w of
           Inl (FileNotFoundError m) \<Rightarrow>
             (started @
              [StError (cross_mark @ '' File '' @ py_repr geojson_file @
                 '' not found. Please ensure the file exists in the current directory.'')],
              Stopped)
         | Inl e \<Rightarrow>
             (started @
              [StError (cross_mark @ '' Error loading GeoJSON file: '' @ exn_str e)] @
              traceback_code debug_mode e,
              Stopped)
         | Inr regions_gdf \<Rightarrow>
             (let loaded = debug_print debug_mode ''GeoJSON loaded successfully''
                    (Some (JDict
                       [(''shape'', JList [JInt (int (length (features regions_gdf))),
                                          JInt (int (length (gcolumns regions_gdf)))]),
                        (''columns'', JList (map JStr (gcolumns regions_gdf))),
                        (''regions'',
                           if ''region'' \<in> set (gcolumns regions_gdf)
                           then JList (map JCell
                                  (unique (map (\<lambda>r. row_get r ''region'' CNone)
                                     (features regions_gdf))))
                           else JStr (''No '' @ py_repr ''region'' @ '' column found''))]))
              in if gdf_empty regions_gdf
                 then (started @ loaded @
                       [StError (cross_mark @ '' No data found in the GeoJSON file'')], Stopped)
                 else (started @ loaded, Finished regions_gdf)))"

text \<open>Lines 58 to 72: one uniform draw per region after the generator is seeded again.\<close>

definition assign_temperatures ::
  "'g numpy \<Rightarrow> mapenv \<Rightarrow> bool \<Rightarrow> geodataframe \<Rightarrow> ui list \<times> (geodataframe \<times> 'g) run" where
  "assign_temperatures np w debug_mode regions_gdf =
     (let started = debug_print debug_mode ''Generating synthetic temperature data...'' None;
          g0 = random_seed np 42;
          (temperatures, g1) =
            draw (random_uniform np (Finite 26) (Finite 34)) (length (features regions_gdf)) g0
      in case setitem regions_gdf ''Temperature'' temperatures of
           Inr assigned \<Rightarrow>
             (started @
              debug_print debug_mode ''Temperature data generated''
                (Some (JDict
                   [(''min_temp'', JFloat (series_min (float_series temperatures))),
                    (''max_temp'', JFloat (series_max (float_series temperatures))),
                    (''mean_temp'', JFloat (series_mean w temperatures))])),
              Finished (assigned, g1))
         | Inl e \<Rightarrow>
             (started @
              [StError (cross_mark @ '' Error generating temperature data: '' @ exn_str e)] @
              traceback_code debug_mode e,
              Stopped))"

text \<open>Lines 74 to 83.\<close>

definition create_map :: "mapenv \<Rightarrow> bool \<Rightarrow> ui list \<times> folium_map run" where
  "create_map w debug_mode =
     (let started = debug_print debug_mode ''Creating folium map...'' None
      in case folium_Map_raises w of
           None \<Rightarrow> (started @ debug_print debug_mode ''Map created successfully'' None, Finished [])
         | Some e \<Rightarrow>
             (started @ [StError (cross_mark @ '' Error creating map: '' @ exn_str e)] @
              traceback_code debug_mode e,
              Stopped))"

text \<open>Lines 85 to 110.\<close>

definition add_choropleth ::
  "mapenv \<Rightarrow> bool \<Rightarrow> geodataframe \<Rightarrow> folium_map \<Rightarrow> ui list \<times> folium_map run" where
  "add_choropleth w debug_mode regions_gdf m =
     (let started = debug_print debug_mode ''Adding choropleth layer...'' None
      in case choropleth_raises w regions_gdf of
           None \<Rightarrow>
             (started @ debug_print debug_mode ''Choropleth layer added successfully'' None,
              Finished (m @ [ChoroplethLayer regions_gdf]))
         | Some (KeyError k) \<Rightarrow>
             (started @
              [StError (cross_mark @ '' Missing required column: '' @ exn_str (KeyError k))] @
              (if debug_mode
               then [StWrite (''Available columns: '' @ repr_list (gcolumns regions_gdf))]
               else []),
              Stopped)
         | Some e \<Rightarrow>
             (started @
              [StError (cross_mark @ '' Error adding choropleth layer: '' @ exn_str e)] @
              traceback_code debug_mode e,
              Stopped))"

text \<open>
  The body of the inner \<open>try\<close> of lines 117 to 125 for one row, in the order Python
  evaluates it: the geometry is looked up, simplified and serialised; the tooltip's text
  takes the row's region and its temperature formatted with \<open>'.1f'\<close>; then
  \<open>folium.GeoJson\<close> builds the layer.
\<close>

definition make_tooltip :: "ext \<Rightarrow> mapenv \<Rightarrow> row \<Rightarrow> exn + layer" where
  "make_tooltip x w r =
     (case row_getitem r ''geometry'' of
        Inl e \<Rightarrow> Inl e
      | Inr geometry \<Rightarrow>
     (case simplify_to_json w geometry of
        Inl e \<Rightarrow> Inl e
      | Inr geo_j \<Rightarrow>
     (case row_getitem r ''region'' of
        Inl e \<Rightarrow> Inl e
      | Inr region \<Rightarrow>
     (case row_getitem r ''Temperature'' of
        Inl e \<Rightarrow> Inl e
      | Inr temperature \<Rightarrow>
     (case format_1f x temperature of
        Inl e \<Rightarrow> Inl e
      | Inr text \<Rightarrow>
          (let tip = py_str x region @ '': '' @ text @ '' '' @ deg @ ''C''
           in case geojson_raises w geo_j tip of
                Some e \<Rightarrow> Inl e
              | None \<Rightarrow> Inr (GeoJsonLayer geo_j tip)))))))"

text \<open>\<open>iterrows\<close>: the rows with their positions in the default index.\<close>

definition iterrows :: "geodataframe \<Rightarrow> (nat \<times> row) list" where
  "iterrows g = zip [0..<length (features g)] (features g)"

definition tooltip_warning :: "ext \<Rightarrow> nat \<Rightarrow> row \<Rightarrow> exn \<Rightarrow> string" where
  "tooltip_warning x idx r tooltip_error =
     ''Warning: Failed to add tooltip for region '' @
     (case map_of r ''region'' of None \<Rightarrow> str_nat idx | Some c \<Rightarrow> py_str x c) @
     '': '' @ exn_str tooltip_error"

text \<open>
  The \<open>for\<close> loop of lines 116 to 128. Its state is the map, \<open>tooltip_count\<close> and the
  calls made so far.
\<close>

fun tooltip_loop ::
  "ext \<Rightarrow> mapenv \<Rightarrow> bool \<Rightarrow> (nat \<times> row) list \<Rightarrow> folium_map \<times> nat \<times> ui list
     \<Rightarrow> folium_map \<times> nat \<times> ui list" where
  "tooltip_loop x w debug_mode [] state = state"
| "tooltip_loop x w debug_mode ((idx, r) # rows) (m, tooltip_count, shown) =
     (case make_tooltip x w r of
        Inr tooltip_layer \<Rightarrow>
          tooltip_loop x w debug_mode rows (m @ [tooltip_layer], tooltip_count + 1, shown)
      | Inl tooltip_error \<Rightarrow>
          tooltip_loop x w debug_mode rows
            (m, tooltip_count,
             shown @ debug_print debug_mode (tooltip_warning x idx r tooltip_error) None))"

text \<open>Lines 112 to 134; the section never stops the run.\<close>

definition add_tooltips ::
  "ext \<Rightarrow> mapenv \<Rightarrow> bool \<Rightarrow> geodataframe \<Rightarrow> folium_map \<Rightarrow> ui list \<times> folium_map" where
  "add_tooltips x w debug_mode regions_gdf m =
     (let (m', tooltip_count, warned) =
            tooltip_loop x w debug_mode (iterrows regions_gdf) (m, 0, [])
      in (debug_print debug_mode ''Adding tooltips...'' None @ warned @
          debug_print debug_mode
            (''Tooltips added successfully for '' @ str_nat tooltip_count @ '' regions'') None,
          m'))"

text \<open>Lines 142 to 150.\<close>

definition tab1 :: "mapenv \<Rightarrow> bool \<Rightarrow> folium_map \<Rightarrow> ui list" where
  "tab1 w debug_mode m =
     map (InTab 1)
       ([StMarkdown ''### Singapore Weather Map''] @
        (case st_folium_raises w m of
           None \<Rightarrow> [StFolium m, StSuccess (check_mark @ '' Map displayed successfully'')]
         | Some e \<Rightarrow>
             [StError (cross_mark @ '' Error displaying map: '' @ exn_str e)] @
             traceback_code debug_mode e))"

text \<open>One \<open>try\<close> block of lines 163 to 179, and lines 152 to 189.\<close>

definition tab2_metric :: "ext \<Rightarrow> dataframe \<Rightarrow> nat \<Rightarrow> string \<Rightarrow> string \<Rightarrow> ui list" where
  "tab2_metric x df col label what =
     (case current_value x df label of
        Inr text \<Rightarrow> [ColMetric col label text]
      | Inl e \<Rightarrow> [ColError col (''Error loading '' @ what @ '': '' @ exn_str e)])"

definition tab2 :: "ext \<Rightarrow> bool \<Rightarrow> dataframe option \<Rightarrow> ui list" where
  "tab2 x debug_mode df_opt =
     map (InTab 2)
       (case df_opt of
          None \<Rightarrow> [StError (cross_mark @ '' No time series data available'')]
        | Some df \<Rightarrow>
            [StSubheader ''Current Values'', StColumns 3] @
            tab2_metric x df 1 temperature_label ''temperature'' @
            tab2_metric x df 2 humidity_label ''humidity'' @
            tab2_metric x df 3 wind_label ''wind speed'' @
            [StMarkdown ''---'', StSubheader ''Trends Over Time''] @
            (let failed = (\<lambda>e.
                   [StError (cross_mark @ '' Error displaying time series data: '' @ exn_str e)] @
                   traceback_code debug_mode e)
             in case chart_data df of
                  Inl e \<Rightarrow> failed e
                | Inr cd \<Rightarrow>
                    (case line_chart_raises x cd of
                       Some e \<Rightarrow> failed e
                     | None \<Rightarrow>
                         [StLineChart cd,
                          StSuccess (check_mark @ '' Time series data displayed successfully'')])))"

text \<open>Lines 191 to 228. \<open>head()\<close> keeps the first five rows.\<close>

definition repr_shape :: "nat \<times> nat \<Rightarrow> string" where
  "repr_shape sh = ''('' @ str_nat (fst sh) @ '', '' @ str_nat (snd sh) @ '')''"

definition df_head :: "dataframe \<Rightarrow> dataframe" where
  "df_head df = map (\<lambda>(label, s). (label, s\<lparr>cells := take 5 (cells s)\<rparr>)) df"

definition gdf_head :: "geodataframe \<Rightarrow> geodataframe" where
  "gdf_head g = g\<lparr>features := take 5 (features g)\<rparr>"

definition tab3 :: "ext \<Rightarrow> mapenv \<Rightarrow> bool \<Rightarrow> geodataframe \<Rightarrow> dataframe option \<Rightarrow> ui list" where
  "tab3 x w debug_mode regions_gdf df_opt =
     map (InTab 3)
       (if debug_mode
        then [StSubheader (wrench @ '' Debug Information''),
              StWrite ''**System Information:**'',
              StWrite (''- Python version: '' @ sys_version x),
              StWrite (''- Streamlit version: '' @ streamlit_version x),
              StWrite ''**Data Information:**'',
              StWrite (''- Regions DataFrame shape: '' @
                 repr_shape (length (features regions_gdf), length (gcolumns regions_gdf))),
              StWrite (case df_opt of
                 Some df \<Rightarrow> ''- Time series DataFrame shape: '' @ repr_shape (shape df)
               | None \<Rightarrow> ''- Time series DataFrame: Not available''),
              StWrite ''**Memory Usage (approximate):**'',
              StWrite (''- Regions data: '' @ format_f 2 (gdf_memory_kb w regions_gdf) @ '' KB''),
              StWrite (case df_opt of
                 Some df \<Rightarrow> ''- Time series data: '' @ format_f 2 (df_memory_kb w df) @ '' KB''
               | None \<Rightarrow> ''- Time series data: Not available''),
              StWrite ''**Sample Data:**'',
              StWrite ''Regions data:'',
              StGeoDataframe (gdf_head regions_gdf),
              StWrite ''Time series data:'',
              (case df_opt of
                 Some df \<Rightarrow> StDataframe (df_head df)
               | None \<Rightarrow> StWrite ''No time series data available'')]
        else [StInfo ''Enable Debug Mode in the sidebar to see debug information''])"

text \<open>Lines 136 to 231: everything after the map is built.\<close>

definition main_interface ::
  "ext \<Rightarrow> mapenv \<Rightarrow> bool \<Rightarrow> geodataframe \<Rightarrow> folium_map \<Rightarrow> dataframe option \<Rightarrow> ui list" where
  "main_interface x w debug_mode regions_gdf m df_opt =
     [StTitle ''Singapore Weather Tracker'',
      StTabs [''Weather Map'', ''Time Series Data'', ''Debug Info'']] @
     tab1 w debug_mode m @
     tab2 x debug_mode df_opt @
     tab3 x w debug_mode regions_gdf df_opt @
     (if \<not> debug_mode then [SidebarSuccess (check_mark @ '' Dashboard loaded successfully!'')]
      else [])"

text \<open>
  The whole script, top to bottom. \<open>session\<close> and \<open>g\<close> are the session's \<open>debug_mode\<close>
  and the generator's state before the run, \<open>checkbox\<close> what the sidebar checkbox of
  line 25 returns. A run that is not stopped ends with the map it has built.
\<close>

definition weather_map_dashboard ::
  "'g numpy \<Rightarrow> ext \<Rightarrow> mapenv \<Rightarrow> (nat \<Rightarrow> int) \<Rightarrow> bool option \<Rightarrow> bool \<Rightarrow> 'g
     \<Rightarrow> ui list \<times> folium_map run" where
  "weather_map_dashboard np x w now session checkbox g =
     then_run (import_dashboard np x w now session g) (\<lambda>(df, _, _).
     then_run ([SidebarCheckbox (wrench @ '' Debug Mode'')], Finished checkbox) (\<lambda>debug_mode.
     then_run (load_regions w debug_mode) (\<lambda>loaded.
     then_run (assign_temperatures np w debug_mode loaded) (\<lambda>(regions_gdf, _).
     then_run (create_map w debug_mode) (\<lambda>m0.
     then_run (add_choropleth w debug_mode regions_gdf m0) (\<lambda>m1.
       (let (tooltips, m) = add_tooltips x w debug_mode regions_gdf m1
        in (tooltips @ main_interface x w debug_mode regions_gdf m (Some df), Finished m))))))))"

section \<open>Notions used by the properties\<close>

subsection \<open>The generated series\<close>

text \<open>
  The condition of the plausibility policy in the specification's words: some temperature
  below \<open>-50\<close> or above \<open>60\<close>, some humidity below \<open>0\<close> or above \<open>100\<close>, or some wind
  speed below \<open>0\<close>; and the three errors of the range checks.
\<close>

definition out_of_range :: "pyfloat list \<times> pyfloat list \<times> pyfloat list \<Rightarrow> bool" where
  "out_of_range arrays =
     (case arrays of (temperature_data, humidity_data, wind_data) \<Rightarrow>
        list_ex (\<lambda>v. flt v (Finite (- 50)) \<or> fgt v (Finite 60)) temperature_data \<or>
        list_ex (\<lambda>v. flt v (Finite 0) \<or> fgt v (Finite 100)) humidity_data \<or>
        list_ex (\<lambda>v. flt v (Finite 0)) wind_data)"

definition range_errors :: "exn set" where
  "range_errors =
     {ValueError ''Temperature data contains unrealistic values'',
      ValueError ''Humidity data contains unrealistic values'',
      ValueError ''Wind speed data contains negative values''}"

text \<open>
  The frame that a successful call builds, from the clock readings and the arrays; the
  numeric columns of a frame; a frame with a missing entry somewhere.
\<close>

definition time_index :: "(nat \<Rightarrow> int) \<Rightarrow> int list" where
  "time_index now = map (\<lambda>i. now i - (99 - int i) * minute) [0..<100]"

definition weather_frame ::
  "(nat \<Rightarrow> int) \<Rightarrow> pyfloat list \<times> pyfloat list \<times> pyfloat list \<Rightarrow> dataframe" where
  "weather_frame now arrays =
     (case arrays of (temperature_data, humidity_data, wind_data) \<Rightarrow>
        [(''Time'', \<lparr>dtype = Datetime64, cells = map CTime (time_index now)\<rparr>),
         (temperature_label, float_series temperature_data),
         (humidity_label, float_series humidity_data),
         (wind_label, float_series wind_data)])"

definition numeric_columns :: "dataframe \<Rightarrow> series option list" where
  "numeric_columns df = map (map_of df) [temperature_label, humidity_label, wind_label]"

definition has_null :: "dataframe \<Rightarrow> bool" where
  "has_null df = list_ex (\<lambda>(label, s). list_ex isnull (cells s)) df"

subsection \<open>Kinds of calls\<close>

text \<open>
  The calls that report an error. The calls that show a current value, or the error that
  takes its place. Notices: banners, warnings, errors, debug lines and the sidebar
  checkbox; everything else that a script shows (title, tabs and their content, map,
  metrics, charts, tables) is not a notice. The three tabs.
\<close>

fun is_st_error :: "ui \<Rightarrow> bool" where
  "is_st_error (StError m) = True"
| "is_st_error (ColError c m) = True"
| "is_st_error (InTab n e) = is_st_error e"
| "is_st_error _ = False"

fun is_metric :: "ui \<Rightarrow> bool" where
  "is_metric (ColMetric c l v) = True"
| "is_metric (ColError c m) = True"
| "is_metric (InTab n e) = is_metric e"
| "is_metric _ = False"

fun is_notice :: "ui \<Rightarrow> bool" where
  "is_notice (StSuccess m) = True"
| "is_notice (StError m) = True"
| "is_notice (StWarning m) = True"
| "is_notice (StWrite m) = True"
| "is_notice (StJson j) = True"
| "is_notice (StCode c) = True"
| "is_notice (LoggerInfo m) = True"
| "is_notice (SidebarCheckbox l) = True"
| "is_notice _ = False"

definition tabs :: ui where
  "tabs = StTabs [''Weather Map'', ''Time Series Data'', ''Debug Info'']"

subsection \<open>The tooltip loop without the loop\<close>

text \<open>
  What the tooltip loop does to the rows: the layers of the rows whose tooltip can be
  built, the warnings of the rows where building it raises, and the debug lines for a
  list of messages.
\<close>

definition tooltip_layers :: "ext \<Rightarrow> mapenv \<Rightarrow> (nat \<times> row) list \<Rightarrow> layer list" where
  "tooltip_layers x w rows =
     concat (map (\<lambda>(idx, r). case make_tooltip x w r of Inr l \<Rightarrow> [l] | Inl e \<Rightarrow> []) rows)"

definition tooltip_failures :: "ext \<Rightarrow> mapenv \<Rightarrow> (nat \<times> row) list \<Rightarrow> string list" where
  "tooltip_failures x w rows =
     concat (map (\<lambda>(idx, r). case make_tooltip x w r of
                    Inr l \<Rightarrow> [] | Inl e \<Rightarrow> [tooltip_warning x idx r e]) rows)"

definition debug_lines :: "bool \<Rightarrow> string list \<Rightarrow> ui list" where
  "debug_lines debug_mode messages = concat (map (\<lambda>m. debug_print debug_mode m None) messages)"

subsection \<open>Stages of the map script\<close>

text \<open>
  The regions frame after line 62 has assigned the temperatures, and the debug flag that
  the imported dashboard module reads from the session.
\<close>

definition with_temperatures :: "'g numpy \<Rightarrow> geodataframe \<Rightarrow> geodataframe" where
  "with_temperatures np regions_gdf =
     \<lparr>gcolumns = (if ''Temperature'' \<in> set (gcolumns regions_gdf) then gcolumns regions_gdf
                   else gcolumns regions_gdf @ [''Temperature'']),
      features = map (\<lambda>(r, v). row_set r ''Temperature'' (CFloat v))
        (zip (features regions_gdf)
           (fst (draw (random_uniform np (Finite 26) (Finite 34))
                   (length (features regions_gdf)) (random_seed np 42))))\<rparr>"

definition session_debug :: "bool option \<Rightarrow> bool" where
  "session_debug session = (case session of None \<Rightarrow> False | Some b \<Rightarrow> b)"

text \<open>
  The conditions under which the map script calls \<open>st.stop()\<close>: the dashboard module
  cannot be imported, the generated series is out of range, the boundary file cannot be
  read or is empty, the base map cannot be created, or the choropleth cannot be added.
\<close>

definition fatal :: "'g numpy \<Rightarrow> mapenv \<Rightarrow> 'g \<Rightarrow> bool" where
  "fatal np w g =
     (import_error w \<noteq> None \<or>
      out_of_range (fst (weather_arrays np 100 g)) \<or>
      (case read_file w of
         Inl e \<Rightarrow> True
       | Inr regions_gdf \<Rightarrow>
           gdf_empty regions_gdf \<or>
           folium_Map_raises w \<noteq> None \<or>
           choropleth_raises w (with_temperatures np regions_gdf) \<noteq> None))"

text \<open>
  The boundary file is absent (reading it raises, \<open>FileNotFoundError\<close> or whatever else
  the library chooses) or empty, and the error shown for it.
\<close>

definition geometry_unavailable :: "mapenv \<Rightarrow> bool" where
  "geometry_unavailable w =
     (case read_file w of
        Inl e \<Rightarrow> True
      | Inr regions_gdf \<Rightarrow> gdf_empty regions_gdf)"

definition geometry_error :: "mapenv \<Rightarrow> string" where
  "geometry_error w =
     (case read_file w of
        Inl (FileNotFoundError m) \<Rightarrow> cross_mark @ '' File '' @ py_repr geojson_file @
          '' not found. Please ensure the file exists in the current directory.''
      | Inl e \<Rightarrow> cross_mark @ '' Error loading GeoJSON file: '' @ exn_str e
      | Inr regions_gdf \<Rightarrow> cross_mark @ '' No data found in the GeoJSON file'')"

subsection \<open>Stand-ins to run the scripts on\<close>

text \<open>
  A small stand-in for NumPy: the generator's state is a counter, a normal draw at state
  \<open>g\<close> is \<open>loc + scale * toy_draw z g\<close>, where \<open>toy_draw z g\<close> is \<open>z\<close> plus 0, 1 or 2
  tenths in turn, a uniform draw steps through eighths of the interval, the sine is
  constantly 0 and the cosine constantly 1, and arithmetic is exact. With \<open>z = 0\<close> the
  series is plausible, with \<open>z = 1000\<close> it is not.
\<close>

definition toy_draw :: "rat \<Rightarrow> nat \<Rightarrow> rat" where
  "toy_draw z g = z + of_nat (g mod 3) / 10"

definition toy_numpy :: "rat \<Rightarrow> nat numpy" where
  "toy_numpy z =
     \<lparr>random_seed = (\<lambda>s. s),
      random_normal = (\<lambda>loc scale g.
        (Finite (rat_of loc + rat_of scale * toy_draw z g), Suc g)),
      random_uniform = (\<lambda>lo hi g.
        (Finite (rat_of lo + (rat_of hi - rat_of lo) * (of_nat (g mod 8) / 8)), Suc g)),
      linspace_at = (\<lambda>a b n i.
        Finite (rat_of a + (rat_of b - rat_of a) * of_nat i / of_nat (n - 1))),
      np_sin = (\<lambda>a. Finite 0),
      np_cos = (\<lambda>a. Finite 1),
      np_pi = Finite (355 / 113),
      fadd = (\<lambda>a b. Finite (rat_of a + rat_of b)),
      fmul = (\<lambda>a b. Finite (rat_of a * rat_of b))\<rparr>"

text \<open>Stand-ins for the rest of Python, and a frame of two rows with one NaN.\<close>

definition toy_ext :: ext where
  "toy_ext =
     \<lparr>format_other = (\<lambda>c. Inl (TypeError ''unsupported format string'')),
      str_cell = (\<lambda>c. ''None''),
      str_min = (\<lambda>s. Inr ''first''),
      str_max = (\<lambda>s. Inr ''last''),
      line_chart_raises = (\<lambda>df. None),
      describe = (\<lambda>df. df),
      sys_version = ''3.11.4 (main)'',
      streamlit_version = ''1.30.0'',
      pandas_version = ''2.1.0'',
      numpy_version = ''1.26.0''\<rparr>"

definition nan_frame :: dataframe where
  "nan_frame =
     [(''Time'', \<lparr>dtype = Datetime64, cells = [CTime 0, CTime 60000000]\<rparr>),
      (temperature_label, float_series [Finite 20, NaN]),
      (humidity_label, float_series [Finite 50, Finite 51]),
      (wind_label, float_series [Finite 10, Finite 11])]"

text \<open>
  A boundary file of two regions, the first row of which has no geometry; the same frame
  after the temperatures are assigned; and stand-ins for the mapping libraries: a
  choropleth needs the \<open>region\<close> column, only a geometry can be simplified, nothing
  else raises.
\<close>

definition toy_regions :: geodataframe where
  "toy_regions =
     \<lparr>gcolumns = [''region'', ''geometry''],
      features = [[(''region'', CStr ''South''), (''geometry'', CNone)],
                  [(''region'', CStr ''North''), (''geometry'', CGeom ''P1'')]]\<rparr>"

definition toy_assigned :: geodataframe where
  "toy_assigned =
     \<lparr>gcolumns = [''region'', ''geometry'', ''Temperature''],
      features = [[(''region'', CStr ''South''), (''geometry'', CNone),
                   (''Temperature'', CFloat (Finite 28))],
                  [(''region'', CStr ''North''), (''geometry'', CGeom ''P1''),
                   (''Temperature'', CFloat (Finite 29))]]\<rparr>"

definition toy_mapenv :: mapenv where
  "toy_mapenv =
     \<lparr>import_error = None,
      read_file = Inr toy_regions,
      folium_Map_raises = None,
      choropleth_raises = (\<lambda>g. if ''region'' \<in> set (gcolumns g) then None
                                 else Some (KeyError ''region'')),
      simplify_to_json = (\<lambda>c. case c of CGeom t \<Rightarrow> Inr (''{'' @ t @ ''}'')
                                 | _ \<Rightarrow> Inl (TypeError ''not a geometry'')),
      geojson_raises = (\<lambda>geo_j tip. None),
      st_folium_raises = (\<lambda>m. None),
      series_mean = (\<lambda>vs. NaN),
      gdf_memory_kb = (\<lambda>g. Finite 1),
      df_memory_kb = (\<lambda>df. Finite 2)\<rparr>"

text \<open>
  Three more runs of the map script: no boundary file, an empty boundary file, and a
  boundary file whose features lack the \<open>region\<close> property.
\<close>

definition toy_missing :: mapenv where
  "toy_missing = toy_mapenv\<lparr>read_file := Inl (FileNotFoundError ''No such file or directory'')\<rparr>"

definition toy_empty :: mapenv where
  "toy_empty =
     toy_mapenv\<lparr>read_file := Inr \<lparr>gcolumns = [''region'', ''geometry''], features = []\<rparr>\<rparr>"

definition unnamed_regions :: geodataframe where
  "unnamed_regions =
     \<lparr>gcolumns = [''name'', ''geometry''],
      features = [[(''name'', CStr ''North''), (''geometry'', CGeom ''P1'')]]\<rparr>"

definition toy_unnamed :: mapenv where
  "toy_unnamed = toy_mapenv\<lparr>read_file := Inr unnamed_regions\<rparr>"

section \<open>The synthetic series generator\<close>

lemma labels_distinct [simp]:
  "temperature_label \<noteq> ''Time''" "humidity_label \<noteq> ''Time''" "wind_label \<noteq> ''Time''"
  "''Time'' \<noteq> temperature_label" "''Time'' \<noteq> humidity_label" "''Time'' \<noteq> wind_label"
  "temperature_label \<noteq> humidity_label" "temperature_label \<noteq> wind_label"
  "humidity_label \<noteq> temperature_label" "humidity_label \<noteq> wind_label"
  "wind_label \<noteq> temperature_label" "wind_label \<noteq> humidity_label"
  by (simp_all add: temperature_label_def humidity_label_def wind_label_def)

lemma length_draw: "draw d n g = (xs, g') \<Longrightarrow> length xs = n"
  by (induction n arbitrary: g xs g') (auto simp: Let_def split: prod.splits)

lemma length_linspace: "length (linspace np a b n) = n"
  by (simp add: linspace_def)

lemma weather_arrays_lengths:
  assumes "weather_arrays np n g = ((t, h, w), g')"
  shows "length t = n" and "length h = n" and "length w = n"
  using assms
  by (auto simp: weather_arrays_def Let_def length_linspace split: prod.splits
      dest!: length_draw)

lemma validate_ranges_out_of_range:
  "out_of_range (t, h, w) \<longleftrightarrow> validate_ranges t h w \<noteq> None"
  by (auto simp: out_of_range_def validate_ranges_def list_ex_iff)

lemma validate_ranges_message:
  "validate_ranges t h w = Some e \<Longrightarrow> e \<in> range_errors"
  by (auto simp: validate_ranges_def range_errors_def split: if_splits)

text \<open>
  The generator returns a frame exactly when the range checks pass, and then it is
  \<open>weather_frame\<close>: the frame's constructor never fails, because the four columns have
  100 entries each.
\<close>

lemma generate_weather_data_frame:
  "fst (snd (generate_weather_data np now debug_mode g)) =
     (case fst (weather_arrays np 100 g) of (t, h, w) \<Rightarrow>
        if validate_ranges t h w = None then Some (weather_frame now (t, h, w)) else None)"
proof -
  obtain t h w g' where a: "weather_arrays np 100 g = ((t, h, w), g')"
    by (metis prod.collapse)
  note l = weather_arrays_lengths [OF a]
  have ok: "pd_DataFrame (weather_frame now (t, h, w)) = Inr (weather_frame now (t, h, w))"
    by (simp add: pd_DataFrame_def weather_frame_def df_len_def float_series_def l time_index_def)
  show ?thesis
    using ok
    by (cases "validate_ranges t h w")
       (simp_all add: generate_weather_data_def a Let_def weather_frame_def time_index_def)
qed

subsection \<open>The stand-in library, evaluated\<close>

text \<open>
  The arrays that the stand-in library produces, in closed form: \<open>toy_draw z k\<close> is the
  draw at state \<open>k\<close>, and the three arrays read the states from 42 on.
\<close>

lemma draw_counter:
  assumes "\<And>g. d g = (f g, Suc g)"
  shows "draw d n g = (map f [g..<g + n], g + n)"
proof (induction n arbitrary: g)
  case 0
  then show ?case by simp
next
  case (Suc n)
  have "[g..<g + Suc n] = g # [Suc g..<Suc g + n]"
    by (simp add: upt_conv_Cons)
  with Suc [of "Suc g"] show ?case
    by (simp add: assms)
qed

lemma toy_numpy_fields [simp]:
  "random_seed (toy_numpy z) s = s"
  "random_normal (toy_numpy z) loc scale g = (Finite (rat_of loc + rat_of scale * toy_draw z g), Suc g)"
  "np_sin (toy_numpy z) a = Finite 0"
  "np_cos (toy_numpy z) a = Finite 1"
  "fadd (toy_numpy z) a b = Finite (rat_of a + rat_of b)"
  "fmul (toy_numpy z) a b = Finite (rat_of a * rat_of b)"
  by (simp_all add: toy_numpy_def toy_draw_def)

lemma toy_draws:
  "draw (random_normal (toy_numpy z) (Finite 0) (Finite s)) n k =
     (map (\<lambda>i. Finite (s * toy_draw z i)) [k..<k + n], k + n)"
  by (rule draw_counter) simp

lemma toy_signal_plus_noise:
  assumes "length xs = n" and "\<And>a. f a = Finite c"
  shows "map2 (fadd (toy_numpy z)) (map f xs) (map (\<lambda>i. Finite (s * toy_draw z i)) [k..<k + n]) =
         map (\<lambda>i. Finite (c + s * toy_draw z i)) [k..<k + n]"
  using assms by (intro nth_equalityI) simp_all

lemma toy_weather_arrays:
  "fst (weather_arrays (toy_numpy z) n g) =
     (map (\<lambda>i. Finite (20 + 1 / 2 * toy_draw z i)) [42..<42 + n],
      map (\<lambda>i. Finite (60 + 1 * toy_draw z i)) [42 + n..<42 + n + n],
      map (\<lambda>i. Finite (10 + 3152519739159347 / 4503599627370496 * toy_draw z i))
        [42 + n + n..<42 + n + n + n])"
proof -
  have t: "map2 (fadd (toy_numpy z))
       (map (\<lambda>a. fadd (toy_numpy z) (Finite 20) (fmul (toy_numpy z) (Finite 5) (np_sin (toy_numpy z) a)))
          (linspace (toy_numpy z) a b n))
       (map (\<lambda>i. Finite (s * toy_draw z i)) [k..<k + n]) =
     map (\<lambda>i. Finite (20 + s * toy_draw z i)) [k..<k + n]" for a b s k
    by (rule toy_signal_plus_noise) (simp_all add: length_linspace)
  have h: "map2 (fadd (toy_numpy z))
       (map (\<lambda>a. fadd (toy_numpy z) (Finite 50) (fmul (toy_numpy z) (Finite 10) (np_cos (toy_numpy z) a)))
          (linspace (toy_numpy z) a b n))
       (map (\<lambda>i. Finite (s * toy_draw z i)) [k..<k + n]) =
     map (\<lambda>i. Finite (60 + s * toy_draw z i)) [k..<k + n]" for a b s k
    by (rule toy_signal_plus_noise) (simp_all add: length_linspace)
  have w: "map2 (fadd (toy_numpy z))
       (map (\<lambda>a. fadd (toy_numpy z) (Finite 10) (fmul (toy_numpy z) (Finite 3) (np_sin (toy_numpy z) a)))
          (linspace (toy_numpy z) a b n))
       (map (\<lambda>i. Finite (s * toy_draw z i)) [k..<k + n]) =
     map (\<lambda>i. Finite (10 + s * toy_draw z i)) [k..<k + n]" for a b s k
    by (rule toy_signal_plus_noise) (simp_all add: length_linspace)
  show ?thesis
    unfolding weather_arrays_def Let_def toy_draws prod.case t h w
    by (simp only: toy_numpy_fields fst_conv)
qed

lemma toy_draw_bounds: "z \<le> toy_draw z i" "toy_draw z i \<le> z + 1 / 5"
proof -
  have "i mod 3 \<le> 2" by simp
  then have "(of_nat (i mod 3) :: rat) \<le> 2"
    by (metis of_nat_le_iff of_nat_numeral)
  then show "z \<le> toy_draw z i" "toy_draw z i \<le> z + 1 / 5"
    by (simp_all add: toy_draw_def)
qed

lemma toy_numpy_hot: "out_of_range (fst (weather_arrays (toy_numpy 1000) 100 g))"
proof -
  have "fgt (Finite (20 + 1 / 2 * toy_draw 1000 42)) (Finite 60)"
    using toy_draw_bounds(1) [of 1000 42] by (simp add: fgt_def)
  moreover have "(42::nat) \<in> set [42..<42 + 100]" by simp
  ultimately have "list_ex (\<lambda>v. flt v (Finite (- 50)) \<or> fgt v (Finite 60))
      (map (\<lambda>i. Finite (20 + 1 / 2 * toy_draw 1000 i)) [42..<42 + 100])"
    unfolding list_ex_iff by (intro bexI [where x = "Finite (20 + 1 / 2 * toy_draw 1000 42)"]) auto
  then show ?thesis
    by (simp only: toy_weather_arrays out_of_range_def prod.case) simp
qed

lemma toy_numpy_calm: "\<not> out_of_range (fst (weather_arrays (toy_numpy 0) 100 g))"
proof -
  have "\<not> flt (Finite (c + s * toy_draw 0 i)) (Finite lo) \<and> \<not> fgt (Finite (c + s * toy_draw 0 i)) (Finite hi)"
    if "lo \<le> c" "c + s / 5 \<le> hi" "0 \<le> s" for c s lo hi i
  proof -
    have d: "0 \<le> toy_draw 0 i" "toy_draw 0 i \<le> 1 / 5"
      using toy_draw_bounds [of 0 i] by simp_all
    have "0 \<le> s * toy_draw 0 i"
      using d(1) that(3) by simp
    moreover have "s * toy_draw 0 i \<le> s * (1 / 5)"
      using d(2) that(3) by (rule mult_left_mono)
    ultimately show ?thesis
      using that by (simp add: fgt_def)
  qed
  note b = this
  have never: "\<not> list_ex P (map f xs)" if "\<And>i. \<not> P (f i)"
    for P :: "pyfloat \<Rightarrow> bool" and f :: "nat \<Rightarrow> pyfloat" and xs
    using that by (induction xs) simp_all
  have t: "\<not> list_ex (\<lambda>v. flt v (Finite (- 50)) \<or> fgt v (Finite 60))
      (map (\<lambda>i. Finite (20 + 1 / 2 * toy_draw 0 i)) xs)" for xs
    by (rule never) (use b [of "- 50" 20 "1 / 2" 60] in simp)
  have h: "\<not> list_ex (\<lambda>v. flt v (Finite 0) \<or> fgt v (Finite 100))
      (map (\<lambda>i. Finite (60 + 1 * toy_draw 0 i)) xs)" for xs
    by (rule never) (use b [of 0 60 1 100] in simp)
  have w: "\<not> list_ex (\<lambda>v. flt v (Finite 0))
      (map (\<lambda>i. Finite (10 + 3152519739159347 / 4503599627370496 * toy_draw 0 i)) xs)" for xs
    by (rule never) (use b [of 0 10 "3152519739159347 / 4503599627370496" 11] in simp)
  show ?thesis
    by (simp only: toy_weather_arrays out_of_range_def prod.case t h w simp_thms)
qed

subsection \<open>Rejection of implausible series\<close>

text \<open>
  Claim C1. If any generated value lies outside the plausibility ranges (a temperature
  below -50 or above 60, a humidity below 0 or above 100, a wind speed below 0), then
  \<open>generate_weather_data\<close> returns \<open>None\<close>, no frame and no partial data, and reports
  the failure: after the optional debug line it shows one error, "Error generating
  weather data:" followed by the message of the range check that failed.
\<close>

theorem generate_weather_data_rejects_out_of_range:
  assumes "out_of_range (fst (weather_arrays np 100 g))"
  shows "\<exists>e. e \<in> range_errors \<and>
     generate_weather_data np now debug_mode g =
       (debug_print debug_mode ''Generating synthetic weather data...'' None @
        [StError (cross_mark @ '' Error generating weather data: '' @ exn_str e)] @
        (if debug_mode then [StCode (format_exc e)] else []),
        None, snd (weather_arrays np 100 g))"
proof -
  obtain t h w g' where a: "weather_arrays np 100 g = ((t, h, w), g')"
    by (metis prod.collapse)
  with assms have "validate_ranges t h w \<noteq> None"
    by (simp add: validate_ranges_out_of_range)
  then obtain e where e: "validate_ranges t h w = Some e" by auto
  have "generate_weather_data np now debug_mode g =
       (debug_print debug_mode ''Generating synthetic weather data...'' None @
        [StError (cross_mark @ '' Error generating weather data: '' @ exn_str e)] @
        (if debug_mode then [StCode (format_exc e)] else []),
        None, snd (weather_arrays np 100 g))"
    by (simp add: generate_weather_data_def a e Let_def)
  with validate_ranges_message [OF e] show ?thesis by blast
qed

theorem generate_weather_data_rejects_out_of_range_witness:
  "out_of_range (fst (weather_arrays (toy_numpy 1000) 100 0)) \<and>
   fst (snd (generate_weather_data (toy_numpy 1000) (\<lambda>i. 0) False 0)) = None \<and>
   (\<exists>e. fst (generate_weather_data (toy_numpy 1000) (\<lambda>i. 0) False 0) =
      [StError (cross_mark @ '' Error generating weather data: '' @ exn_str e)])"
proof -
  from generate_weather_data_rejects_out_of_range [OF toy_numpy_hot [of 0], of "\<lambda>i. 0" False]
  obtain e where "generate_weather_data (toy_numpy 1000) (\<lambda>i. 0) False 0 =
       (debug_print False ''Generating synthetic weather data...'' None @
        [StError (cross_mark @ '' Error generating weather data: '' @ exn_str e)] @
        (if False then [StCode (format_exc e)] else []),
        None, snd (weather_arrays (toy_numpy 1000) 100 0))"
    by blast
  then show ?thesis
    using toy_numpy_hot [of 0] by (auto simp: debug_print_def)
qed

subsection \<open>Determinism\<close>

text \<open>
  Claim C3. For the fixed seed, two runs of \<open>generate_weather_data\<close> produce identical
  temperature, humidity and wind-speed arrays: whatever the state of the generator, the
  clock and the debug flag are at the start of either run, the three arrays are equal,
  the numeric columns of the returned frames are equal (or both runs return \<open>None\<close>), and
  the generator is left in the same state.
\<close>

theorem generate_weather_data_deterministic:
  "fst (weather_arrays np 100 g1) = fst (weather_arrays np 100 g2) \<and>
   map_option numeric_columns (fst (snd (generate_weather_data np now1 debug1 g1))) =
   map_option numeric_columns (fst (snd (generate_weather_data np now2 debug2 g2))) \<and>
   snd (snd (generate_weather_data np now1 debug1 g1)) =
   snd (snd (generate_weather_data np now2 debug2 g2))"
proof -
  have arrays: "weather_arrays np 100 g1 = weather_arrays np 100 g2"
    by (simp add: weather_arrays_def)
  have numeric: "numeric_columns (weather_frame now1 a) = numeric_columns (weather_frame now2 a)"
    for a
    by (cases a) (simp add: numeric_columns_def weather_frame_def)
  have state: "snd (snd (generate_weather_data np now debug_mode g)) = snd (weather_arrays np 100 g)"
    for now debug_mode g
    by (simp add: generate_weather_data_def Let_def split: prod.splits sum.splits option.splits)
  show ?thesis
    by (simp add: generate_weather_data_frame arrays numeric state split: prod.splits)
qed

theorem generate_weather_data_deterministic_witness:
  "fst (weather_arrays (toy_numpy 0) 100 7) = fst (weather_arrays (toy_numpy 0) 100 0) \<and>
   map_option numeric_columns
     (fst (snd (generate_weather_data (toy_numpy 0) (\<lambda>i. 5) True 7))) =
   map_option numeric_columns
     (fst (snd (generate_weather_data (toy_numpy 0) (\<lambda>i. int i) False 0))) \<and>
   snd (snd (generate_weather_data (toy_numpy 0) (\<lambda>i. 5) True 7)) =
   snd (snd (generate_weather_data (toy_numpy 0) (\<lambda>i. int i) False 0))"
  by (rule generate_weather_data_deterministic)

section \<open>Validation of a frame\<close>

lemma debug_print_no_error [simp]: "list_all (\<lambda>e. \<not> is_st_error e) (debug_print d m j)"
  by (simp add: debug_print_def split: option.splits)

lemma getitem_present:
  "label \<in> set (columns df) \<Longrightarrow> \<exists>s. getitem df label = Inr s"
  by (auto simp: getitem_def columns_def map_of_eq_None_iff split: option.splits)

lemma isnull_sum_flags:
  "has_null df \<longleftrightarrow> list_ex (\<lambda>(_, n). n \<noteq> 0) (isnull_sum df)"
  by (auto simp: has_null_def isnull_sum_def list_ex_iff filter_empty_conv split: prod.splits)

text \<open>
  Claim C6. For every frame that has the four required columns and contains a missing
  entry (NaN, \<open>NaT\<close> or \<open>None\<close>), \<open>validate_dataframe\<close> shows the warning "Found NaN
  values" with the counts per column, shows no error, and returns \<open>True\<close>: missing
  entries are flagged and never make validation fail.
\<close>

theorem validate_dataframe_flags_nulls:
  assumes "set required_columns \<subseteq> set (columns df)" and "has_null df"
  shows "snd (validate_dataframe debug_mode df) = True \<and>
         StWarning (warning_sign @ '' Found NaN values: '' @ repr_counts (isnull_sum df))
           \<in> set (fst (validate_dataframe debug_mode df)) \<and>
         list_all (\<lambda>e. \<not> is_st_error e) (fst (validate_dataframe debug_mode df))"
proof -
  have missing: "filter (\<lambda>col. col \<notin> set (columns df)) required_columns = []"
    using assms(1) by (auto simp: filter_empty_conv)
  have "''Time'' \<in> set (columns df)"
    using assms(1) by (simp add: required_columns_def)
  then obtain s where s: "getitem df ''Time'' = Inr s"
    using getitem_present by blast
  have flagged: "list_ex (\<lambda>(_, n). n \<noteq> 0) (isnull_sum df)"
    using assms(2) by (simp add: isnull_sum_flags)
  have "validate_dataframe debug_mode df =
      (debug_print debug_mode ''Validating DataFrame...'' None @
       [StWarning (warning_sign @ '' Found NaN values: '' @ repr_counts (isnull_sum df))] @
       (if \<not> is_datetime64_any_dtype s
        then [StWarning (warning_sign @ '' Time column is not datetime type'')] else []) @
       debug_print debug_mode ''DataFrame validation completed successfully'' None, True)"
    using flagged by (simp add: validate_dataframe_def missing s Let_def)
  then show ?thesis by simp
qed

theorem validate_dataframe_flags_nulls_witness:
  "set required_columns \<subseteq> set (columns nan_frame) \<and> has_null nan_frame \<and>
   validate_dataframe False nan_frame =
     ([StWarning (warning_sign @ '' Found NaN values: '' @ repr_counts (isnull_sum nan_frame))],
      True)"
proof -
  have c: "set required_columns \<subseteq> set (columns nan_frame)"
    by (simp add: required_columns_def columns_def nan_frame_def)
  have n: "has_null nan_frame"
    by (simp add: has_null_def nan_frame_def float_series_def)
  have "validate_dataframe False nan_frame =
     ([StWarning (warning_sign @ '' Found NaN values: '' @ repr_counts (isnull_sum nan_frame))],
      True)"
    using validate_dataframe_flags_nulls [OF c n, of False]
    by (simp add: validate_dataframe_def Let_def debug_print_def getitem_def nan_frame_def
        is_datetime64_any_dtype_def split: if_splits)
  with c n show ?thesis by simp
qed

section \<open>Rows and timestamps of the generated frame\<close>

lemma time_index_length [simp]: "length (time_index now) = 100"
  by (simp add: time_index_def)

lemma time_index_nth: "i < 100 \<Longrightarrow> time_index now ! i = now i - (99 - int i) * minute"
  by (simp add: time_index_def)

text \<open>
  Two neighbouring timestamps are one minute apart plus whatever the clock advanced
  between the two readings; the last timestamp is the last reading.
\<close>

lemma time_index_step:
  "i < 99 \<Longrightarrow> time_index now ! Suc i - time_index now ! i = minute + (now (Suc i) - now i)"
  by (simp add: time_index_nth algebra_simps)

lemma time_index_last: "last (time_index now) = now 99"
proof -
  have "last (time_index now) = time_index now ! 99"
    by (subst last_conv_nth) (auto simp: time_index_def)
  then show ?thesis by (simp add: time_index_nth)
qed

lemma clock_mono:
  assumes "\<And>i. i < 99 \<Longrightarrow> now i \<le> now (Suc i)"
  shows "i \<le> j \<Longrightarrow> j < 100 \<Longrightarrow> now i \<le> (now j :: int)"
proof (induction j)
  case 0
  then show ?case by simp
next
  case (Suc j)
  show ?case
  proof (cases "i = Suc j")
    case True
    then show ?thesis by simp
  next
    case False
    with Suc.prems have "i \<le> j" "j < 99" by simp_all
    with Suc.IH assms [of j] show ?thesis by simp
  qed
qed

text \<open>With a clock that never runs backwards the timestamps increase strictly.\<close>

lemma time_index_strictly_increasing:
  assumes "\<And>i. i < 99 \<Longrightarrow> now i \<le> now (Suc i)" and "i < j" and "j < 100"
  shows "time_index now ! i < time_index now ! j"
proof -
  have "now i \<le> now j"
    using clock_mono [of now i j] assms by simp
  moreover have "(99 - int j) * minute < (99 - int i) * minute"
    using assms(2) by (simp add: minute_def)
  ultimately show ?thesis
    using assms(2,3) by (simp add: time_index_nth)
qed

text \<open>Only a clock that stands still during the call gives steps of exactly one minute.\<close>

lemma time_index_steady_clock:
  assumes "\<And>i. i < 100 \<Longrightarrow> now i = t"
  shows "time_index now = map (\<lambda>i. t - (99 - int i) * minute) [0..<100]"
  unfolding time_index_def using assms by (intro map_cong) auto

text \<open>A frame that the generator returns has 100 rows in every column.\<close>

lemma generated_frame_rows:
  assumes "fst (snd (generate_weather_data np now debug_mode g)) = Some df"
  shows "df_len df = 100" and "list_all (\<lambda>(label, s). length (cells s) = 100) df"
    and "getitem df ''Time'' = Inr \<lparr>dtype = Datetime64, cells = map CTime (time_index now)\<rparr>"
proof -
  obtain t h w g' where a: "weather_arrays np 100 g = ((t, h, w), g')"
    by (metis prod.collapse)
  note l = weather_arrays_lengths [OF a]
  from assms have df: "df = weather_frame now (t, h, w)"
    by (simp add: generate_weather_data_frame a split: if_splits)
  show "df_len df = 100" by (simp add: df weather_frame_def df_len_def)
  show "list_all (\<lambda>(label, s). length (cells s) = 100) df"
    by (simp add: df weather_frame_def float_series_def l)
  show "getitem df ''Time'' = Inr \<lparr>dtype = Datetime64, cells = map CTime (time_index now)\<rparr>"
    by (simp add: df weather_frame_def getitem_def)
qed

lemma toy_frame:
  "fst (snd (generate_weather_data (toy_numpy 0) now debug_mode 0)) =
     Some (weather_frame now (fst (weather_arrays (toy_numpy 0) 100 0)))"
proof -
  obtain t h w where a: "fst (weather_arrays (toy_numpy 0) 100 0) = (t, h, w)"
    by (metis prod.collapse)
  with toy_numpy_calm [of 0] have "validate_ranges t h w = None"
    by (simp add: validate_ranges_out_of_range)
  then show ?thesis by (simp add: generate_weather_data_frame a)
qed

text \<open>
  Claim C4. Whenever \<open>generate_weather_data\<close> succeeds, its output has 100 rows and
  its timestamps increase strictly at one-minute steps, the last one being the call time.
  The row count holds (\<open>generated_frame_rows\<close>), and so does the strict increase on a
  clock that does not run backwards. The steps are not one minute: line 32 reads the clock
  anew for every element. On a clock that advances one microsecond from one reading to
  the next the call succeeds, and its first two timestamps are 60000001 microseconds
  apart, where one minute is 60000000.
\<close>

theorem generate_weather_data_ticking_clock:
  "fst (snd (generate_weather_data (toy_numpy 0) (\<lambda>i. int i) False 0)) =
     Some (weather_frame (\<lambda>i. int i) (fst (weather_arrays (toy_numpy 0) 100 0))) \<and>
   getitem (weather_frame (\<lambda>i. int i) (fst (weather_arrays (toy_numpy 0) 100 0))) ''Time'' =
     Inr \<lparr>dtype = Datetime64, cells = map CTime (time_index (\<lambda>i. int i))\<rparr> \<and>
   time_index (\<lambda>i. int i) ! 1 - time_index (\<lambda>i. int i) ! 0 = 60000001 \<and>
   minute = 60000000"
proof -
  have "getitem (weather_frame (\<lambda>i. int i) a) ''Time'' =
     Inr \<lparr>dtype = Datetime64, cells = map CTime (time_index (\<lambda>i. int i))\<rparr>" for a
    by (cases a) (simp add: weather_frame_def getitem_def)
  moreover have "time_index (\<lambda>i. int i) ! 1 - time_index (\<lambda>i. int i) ! 0 = 60000001"
    using time_index_step [of 0 "\<lambda>i. int i"] by (simp add: minute_def)
  ultimately show ?thesis
    by (simp add: toy_frame minute_def)
qed

section \<open>Current values\<close>

subsection \<open>Formatting to one decimal\<close>

text \<open>
  The text of a finite value formatted with \<open>'.1f'\<close>: an optional sign, the digits of
  the integer part, a point and exactly one digit; the number it denotes is within one
  twentieth of the value.
\<close>

lemma round_half_even_near:
  assumes "0 \<le> r"
  shows "\<bar>of_nat (round_half_even r) - r\<bar> \<le> 1 / 2"
proof -
  have f: "0 \<le> \<lfloor>r\<rfloor>" using assms by simp
  have b: "of_int \<lfloor>r\<rfloor> \<le> r" "r < of_int \<lfloor>r\<rfloor> + 1" by linarith+
  have n: "of_nat (nat \<lfloor>r\<rfloor>) = (of_int \<lfloor>r\<rfloor> :: rat)" "of_nat (nat (\<lfloor>r\<rfloor> + 1)) = (of_int \<lfloor>r\<rfloor> + 1 :: rat)"
    using f by simp_all
  show ?thesis
    using b by (auto simp: round_half_even_def Let_def n)
qed

lemma str_nat_digit: "d < 10 \<Longrightarrow> str_nat d = [digit_char d]"
  by (simp add: str_nat.simps)

lemma format_f_one_decimal:
  "\<exists>n. format_f 1 (Finite q) =
          (if q < 0 then ''-'' else []) @ str_nat (n div 10) @ ''.'' @ [digit_char (n mod 10)] \<and>
        \<bar>of_nat n / 10 - \<bar>q\<bar>\<bar> \<le> 1 / 20"
proof -
  define n where "n = round_half_even (\<bar>q\<bar> * 10)"
  have "\<bar>of_nat n - \<bar>q\<bar> * 10\<bar> \<le> 1 / 2"
    unfolding n_def by (rule round_half_even_near) simp
  then have near: "\<bar>of_nat n / 10 - \<bar>q\<bar>\<bar> \<le> 1 / 20"
    by (simp add: abs_le_iff field_simps)
  have "format_fixed 1 q = str_nat (n div 10) @ ''.'' @ [digit_char (n mod 10)]"
    by (simp add: format_fixed_def n_def [symmetric] Let_def zero_pad_def str_nat_digit)
  with near show ?thesis by auto
qed

subsection \<open>The three metrics\<close>

lemma filter_metric_debug_print [simp]: "filter is_metric (debug_print d m j) = []"
  by (simp add: debug_print_def split: option.splits)

lemma filter_metric_data_summary [simp]: "filter is_metric (fst (data_summary x df)) = []"
  by (simp add: data_summary_def Let_def split: sum.splits)

lemma filter_metric_chart:
  assumes "\<And>e. filter is_metric (failed e) = []" and "\<And>cd. filter is_metric (shown cd) = []"
  shows "filter is_metric
     (case chart_data df of Inl e \<Rightarrow> failed e
      | Inr cd \<Rightarrow> (case line_chart_raises x cd of Some e \<Rightarrow> failed e | None \<Rightarrow> shown cd)) = []"
  using assms by (simp split: sum.splits option.splits)

lemma filter_metric_summary:
  assumes "filter is_metric a = []" and "\<And>e. filter is_metric (b e) = []"
  shows "filter is_metric
     (case (if d then data_summary x df else ([], None)) of
        (shown, None) \<Rightarrow> shown @ a
      | (shown, Some e) \<Rightarrow> shown @ b e) = []"
proof (cases d)
  case True
  obtain shown r where s: "data_summary x df = (shown, r)" by (cases "data_summary x df")
  with filter_metric_data_summary [of x df] have "filter is_metric shown = []" by simp
  with s True assms show ?thesis by (simp split: option.splits)
next
  case False
  with assms show ?thesis by simp
qed

lemma show_dashboard_metrics:
  "filter is_metric (show_dashboard x d (Some df)) =
     filter is_metric (dashboard_metric x d df 1 temperature_label
        ''temperature'' ''Temperature'' (deg @ ''C'')) @
     filter is_metric (dashboard_metric x d df 2 humidity_label ''humidity'' ''Humidity'' ''%'') @
     filter is_metric (dashboard_metric x d df 3 wind_label ''wind speed'' ''Wind speed'' '' km/h'')"
  unfolding show_dashboard_def Let_def
  by (simp add: filter_metric_chart filter_metric_summary split del: if_split)

lemma filter_metric_tab2_metric [simp]:
  "filter is_metric (tab2_metric x df c l w) = tab2_metric x df c l w"
  by (simp add: tab2_metric_def split: sum.splits)

lemma filter_metric_in_tab:
  "filter is_metric (map (InTab n) es) = map (InTab n) (filter is_metric es)"
  by (induction es) auto

lemma filter_metric_traceback [simp]: "filter is_metric (traceback_code d e) = []"
  by (simp add: traceback_code_def)

lemma tab2_metrics:
  "filter is_metric (tab2 x d (Some df)) =
     map (InTab 2)
       (tab2_metric x df 1 temperature_label ''temperature'' @
        tab2_metric x df 2 humidity_label ''humidity'' @
        tab2_metric x df 3 wind_label ''wind speed'')"
  unfolding tab2_def Let_def
  by (simp add: filter_metric_in_tab filter_metric_chart split del: if_split)

lemma current_value_float:
  assumes "map_of df label = Some s" and "cells s \<noteq> []" and "last (cells s) = CFloat v"
  shows "current_value x df label = Inr (format_f 1 v)"
  using assms by (simp add: current_value_def getitem_def iloc_last_def)

lemma current_value_float_series:
  assumes "map_of df label = Some (float_series vs)" and "vs \<noteq> []"
  shows "current_value x df label = Inr (format_f 1 (last vs))"
  using assms by (intro current_value_float [where s = "float_series vs"])
    (simp_all add: float_series_def last_map)

lemma last_map_upt: "0 < n \<Longrightarrow> last (map f [a..<a + n]) = f (a + n - 1)"
  by (simp add: last_map)

lemma toy_last:
  "last (fst (fst (weather_arrays (toy_numpy z) 100 g))) = Finite (20 + 1 / 2 * toy_draw z 141)"
  "last (fst (snd (fst (weather_arrays (toy_numpy z) 100 g)))) = Finite (60 + 1 * toy_draw z 241)"
  "last (snd (snd (fst (weather_arrays (toy_numpy z) 100 g)))) =
     Finite (10 + 3152519739159347 / 4503599627370496 * toy_draw z 341)"
proof -
  have n: "(42::nat) + 100 - 1 = 141" "(42::nat) + 100 + 100 - 1 = 241"
    "(42::nat) + 100 + 100 + 100 - 1 = 341" "(0::nat) < 100"
    by simp_all
  show "last (fst (fst (weather_arrays (toy_numpy z) 100 g))) = Finite (20 + 1 / 2 * toy_draw z 141)"
    by (simp only: toy_weather_arrays fst_conv snd_conv last_map_upt [OF n(4)] n)
  show "last (fst (snd (fst (weather_arrays (toy_numpy z) 100 g)))) = Finite (60 + 1 * toy_draw z 241)"
    by (simp only: toy_weather_arrays fst_conv snd_conv last_map_upt [OF n(4)] n)
  show "last (snd (snd (fst (weather_arrays (toy_numpy z) 100 g)))) =
     Finite (10 + 3152519739159347 / 4503599627370496 * toy_draw z 341)"
    by (simp only: toy_weather_arrays fst_conv snd_conv last_map_upt [OF n(4)] n)
qed

lemma toy_last_values:
  "format_f 1 (last (fst (fst (weather_arrays (toy_numpy 0) 100 g)))) = ''20.0''"
  "format_f 1 (last (fst (snd (fst (weather_arrays (toy_numpy 0) 100 g))))) = ''60.1''"
  "format_f 1 (last (snd (snd (fst (weather_arrays (toy_numpy 0) 100 g))))) = ''10.1''"
  unfolding toy_last by code_simp+

text \<open>
  Claim C8. For every generated series (it has 100 rows, so it is never empty), each of
  the three "Current Values" metrics, in \<open>show_dashboard\<close> and in the second tab of the
  map page alike, displays the most recent sample: the value in the last row of the
  frame's column, formatted to one decimal place. No metric is replaced by an error.
\<close>

theorem current_values_show_last_row:
  assumes "fst (snd (generate_weather_data np now debug0 g)) = Some df"
    and "fst (weather_arrays np 100 g) = (temperature_data, humidity_data, wind_data)"
  shows "filter is_metric (show_dashboard x debug_mode (Some df)) =
           [ColMetric 1 temperature_label (format_f 1 (last temperature_data)),
            ColMetric 2 humidity_label (format_f 1 (last humidity_data)),
            ColMetric 3 wind_label (format_f 1 (last wind_data))] \<and>
         filter is_metric (tab2 x debug_mode (Some df)) =
           map (InTab 2)
             [ColMetric 1 temperature_label (format_f 1 (last temperature_data)),
              ColMetric 2 humidity_label (format_f 1 (last humidity_data)),
              ColMetric 3 wind_label (format_f 1 (last wind_data))] \<and>
         map (\<lambda>label. map_option (\<lambda>s. last (cells s)) (map_of df label))
             [temperature_label, humidity_label, wind_label] =
           [Some (CFloat (last temperature_data)), Some (CFloat (last humidity_data)),
            Some (CFloat (last wind_data))]"
proof -
  obtain g' where a: "weather_arrays np 100 g = ((temperature_data, humidity_data, wind_data), g')"
    using assms(2) by (cases "weather_arrays np 100 g") simp
  note l = weather_arrays_lengths [OF a]
  from assms have df: "df = weather_frame now (temperature_data, humidity_data, wind_data)"
    by (simp add: generate_weather_data_frame split: if_splits)
  have ne: "temperature_data \<noteq> []" "humidity_data \<noteq> []" "wind_data \<noteq> []"
    using l by auto
  have cols: "map_of df temperature_label = Some (float_series temperature_data)"
    "map_of df humidity_label = Some (float_series humidity_data)"
    "map_of df wind_label = Some (float_series wind_data)"
    by (simp_all add: df weather_frame_def)
  note cv = current_value_float_series [OF cols(1) ne(1)]
    current_value_float_series [OF cols(2) ne(2)]
    current_value_float_series [OF cols(3) ne(3)]
  have 1: "filter is_metric (show_dashboard x debug_mode (Some df)) =
           [ColMetric 1 temperature_label (format_f 1 (last temperature_data)),
            ColMetric 2 humidity_label (format_f 1 (last humidity_data)),
            ColMetric 3 wind_label (format_f 1 (last wind_data))]"
    by (simp add: show_dashboard_metrics dashboard_metric_def cv)
  have 2: "filter is_metric (tab2 x debug_mode (Some df)) =
           map (InTab 2)
             [ColMetric 1 temperature_label (format_f 1 (last temperature_data)),
              ColMetric 2 humidity_label (format_f 1 (last humidity_data)),
              ColMetric 3 wind_label (format_f 1 (last wind_data))]"
    by (simp add: tab2_metrics tab2_metric_def cv)
  have 3: "map (\<lambda>label. map_option (\<lambda>s. last (cells s)) (map_of df label))
             [temperature_label, humidity_label, wind_label] =
           [Some (CFloat (last temperature_data)), Some (CFloat (last humidity_data)),
            Some (CFloat (last wind_data))]"
    using ne by (simp add: cols float_series_def last_map)
  from 1 2 3 show ?thesis by blast
qed

theorem current_values_show_last_row_witness:
  "fst (snd (generate_weather_data (toy_numpy 0) (\<lambda>i. 0) False 0)) =
     Some (weather_frame (\<lambda>i. 0) (fst (weather_arrays (toy_numpy 0) 100 0))) \<and>
   filter is_metric (show_dashboard toy_ext False
       (Some (weather_frame (\<lambda>i. 0) (fst (weather_arrays (toy_numpy 0) 100 0))))) =
     [ColMetric 1 temperature_label ''20.0'', ColMetric 2 humidity_label ''60.1'',
      ColMetric 3 wind_label ''10.1''] \<and>
   filter is_metric (tab2 toy_ext False
       (Some (weather_frame (\<lambda>i. 0) (fst (weather_arrays (toy_numpy 0) 100 0))))) =
     [InTab 2 (ColMetric 1 temperature_label ''20.0''),
      InTab 2 (ColMetric 2 humidity_label ''60.1''),
      InTab 2 (ColMetric 3 wind_label ''10.1'')]"
proof -
  have a: "fst (weather_arrays (toy_numpy 0) 100 0) =
      (fst (fst (weather_arrays (toy_numpy 0) 100 0)),
       fst (snd (fst (weather_arrays (toy_numpy 0) 100 0))),
       snd (snd (fst (weather_arrays (toy_numpy 0) 100 0))))"
    by simp
  note shown = current_values_show_last_row
      [OF toy_frame [of "\<lambda>i. 0" False] a, where x = toy_ext and debug_mode = False]
  show ?thesis
  proof (intro conjI)
    show "fst (snd (generate_weather_data (toy_numpy 0) (\<lambda>i. 0) False 0)) =
        Some (weather_frame (\<lambda>i. 0) (fst (weather_arrays (toy_numpy 0) 100 0)))"
      by (rule toy_frame)
    show "filter is_metric (show_dashboard toy_ext False
        (Some (weather_frame (\<lambda>i. 0) (fst (weather_arrays (toy_numpy 0) 100 0))))) =
      [ColMetric 1 temperature_label ''20.0'', ColMetric 2 humidity_label ''60.1'',
       ColMetric 3 wind_label ''10.1'']"
      by (rule shown [THEN conjunct1, unfolded toy_last_values])
    show "filter is_metric (tab2 toy_ext False
        (Some (weather_frame (\<lambda>i. 0) (fst (weather_arrays (toy_numpy 0) 100 0))))) =
      [InTab 2 (ColMetric 1 temperature_label ''20.0''),
       InTab 2 (ColMetric 2 humidity_label ''60.1''),
       InTab 2 (ColMetric 3 wind_label ''10.1'')]"
      by (rule shown [THEN conjunct2, THEN conjunct1, unfolded toy_last_values list.map])
  qed
qed

section \<open>The tooltip loop\<close>

lemma debug_lines_append [simp]:
  "debug_lines d (xs @ ys) = debug_lines d xs @ debug_lines d ys"
  by (simp add: debug_lines_def)

lemma tooltip_loop_result:
  "tooltip_loop x w debug_mode rows (m, tooltip_count, shown) =
     (m @ tooltip_layers x w rows,
      tooltip_count + length (tooltip_layers x w rows),
      shown @ debug_lines debug_mode (tooltip_failures x w rows))"
proof (induction rows arbitrary: m tooltip_count shown)
  case Nil
  then show ?case by (simp add: tooltip_layers_def tooltip_failures_def debug_lines_def)
next
  case (Cons a rows)
  obtain idx r where a: "a = (idx, r)" by (cases a)
  show ?case
  proof (cases "make_tooltip x w r")
    case (Inl e)
    with Cons [of m tooltip_count "shown @ debug_print debug_mode (tooltip_warning x idx r e) None"]
    show ?thesis
      by (simp add: a tooltip_layers_def tooltip_failures_def debug_lines_def)
  next
    case (Inr l)
    with Cons [of "m @ [l]" "tooltip_count + 1" shown]
    show ?thesis
      by (simp add: a tooltip_layers_def tooltip_failures_def debug_lines_def)
  qed
qed

lemma attempts_partition:
  "length (tooltip_layers x w rows) + length (tooltip_failures x w rows) = length rows"
  by (induction rows) (auto simp: tooltip_layers_def tooltip_failures_def split: sum.splits)

lemma debug_lines_off [simp]: "debug_lines False messages = []"
  by (simp add: debug_lines_def debug_print_def)

lemma debug_lines_on:
  "debug_lines True messages =
     concat (map (\<lambda>m. [StWrite (magnifier @ '' DEBUG: '' @ m), LoggerInfo (''DEBUG: '' @ m)]) messages)"
  by (simp add: debug_lines_def debug_print_def)

lemma length_iterrows [simp]: "length (iterrows g) = length (features g)"
  by (simp add: iterrows_def)

lemma toy_assigned_eq: "with_temperatures (toy_numpy z) toy_regions = toy_assigned"
  by (simp add: with_temperatures_def toy_regions_def toy_assigned_def toy_numpy_def
      row_set_def numeral_2_eq_2)

lemma toy_tooltips:
  "tooltip_layers toy_ext toy_mapenv (iterrows toy_assigned) =
     [GeoJsonLayer ''{P1}'' (''North: 29.0 '' @ deg @ ''C'')]"
  "tooltip_failures toy_ext toy_mapenv (iterrows toy_assigned) =
     [''Warning: Failed to add tooltip for region South: not a geometry'']"
  by code_simp+

text \<open>
  Claim C5 says that a failure while constructing a tooltip is caught, logged, and does
  not stop the remaining additions. Logging goes through \<open>debug_print\<close>, which does
  nothing unless debug mode is on: with debug mode off, the first row below fails, the
  second gets its tooltip, and nothing at all is shown or logged.
\<close>

theorem tooltip_failure_not_logged:
  "make_tooltip toy_ext toy_mapenv
     [(''region'', CStr ''South''), (''geometry'', CNone), (''Temperature'', CFloat (Finite 28))] =
     Inl (TypeError ''not a geometry'') \<and>
   add_tooltips toy_ext toy_mapenv False toy_assigned [] =
     ([], [GeoJsonLayer ''{P1}'' (''North: 29.0 '' @ deg @ ''C'')])"
  by code_simp

text \<open>
  Claim C5, amended. For a frame of N rows the loop attempts exactly N tooltip additions,
  one per row: the map receives the layers of the rows whose construction succeeds, in
  order, \<open>tooltip_count\<close> is their number, every other row fails, and the two kinds add
  up to N. A failure is caught and never stops the rows after it. It is logged (one line
  on the page and one in the logger) when debug mode is on, and not at all when it is off.
\<close>

theorem tooltips_attempted_for_every_row:
  "add_tooltips x w debug_mode regions_gdf m =
     (debug_print debug_mode ''Adding tooltips...'' None @
      debug_lines debug_mode (tooltip_failures x w (iterrows regions_gdf)) @
      debug_print debug_mode
        (''Tooltips added successfully for '' @
         str_nat (length (tooltip_layers x w (iterrows regions_gdf))) @ '' regions'') None,
      m @ tooltip_layers x w (iterrows regions_gdf)) \<and>
   length (tooltip_layers x w (iterrows regions_gdf)) +
     length (tooltip_failures x w (iterrows regions_gdf)) = length (features regions_gdf) \<and>
   debug_lines True (tooltip_failures x w (iterrows regions_gdf)) =
     concat (map (\<lambda>m. [StWrite (magnifier @ '' DEBUG: '' @ m), LoggerInfo (''DEBUG: '' @ m)])
       (tooltip_failures x w (iterrows regions_gdf))) \<and>
   debug_lines False (tooltip_failures x w (iterrows regions_gdf)) = []"
  by (simp add: add_tooltips_def tooltip_loop_result attempts_partition debug_lines_on)

theorem tooltips_attempted_for_every_row_witness:
  "add_tooltips toy_ext toy_mapenv True toy_assigned [] =
     ([StWrite (magnifier @ '' DEBUG: Adding tooltips...''),
       LoggerInfo ''DEBUG: Adding tooltips...'',
       StWrite (magnifier @
         '' DEBUG: Warning: Failed to add tooltip for region South: not a geometry''),
       LoggerInfo ''DEBUG: Warning: Failed to add tooltip for region South: not a geometry'',
       StWrite (magnifier @ '' DEBUG: Tooltips added successfully for 1 regions''),
       LoggerInfo ''DEBUG: Tooltips added successfully for 1 regions''],
      [GeoJsonLayer ''{P1}'' (''North: 29.0 '' @ deg @ ''C'')])"
proof -
  have n: "str_nat (Suc 0) = ''1''" by code_simp
  show ?thesis
    using tooltips_attempted_for_every_row [of toy_ext toy_mapenv True toy_assigned "[]"]
    by (simp add: toy_tooltips debug_print_def n)
qed

section \<open>The map script: what halts a run\<close>

subsection \<open>Section by section\<close>

lemma then_run_snd:
  "snd (then_run p f) = (case snd p of Stopped \<Rightarrow> Stopped | Finished a \<Rightarrow> snd (f a))"
  by (cases p; cases "snd p") (auto simp: then_run_def split: prod.splits)

lemma then_run_fst:
  "fst (then_run p f) = fst p @ (case snd p of Stopped \<Rightarrow> [] | Finished a \<Rightarrow> fst (f a))"
  by (cases p; cases "snd p") (auto simp: then_run_def split: prod.splits)

lemma notice_debug_print [simp]: "list_all is_notice (debug_print d m j)"
  by (simp add: debug_print_def split: option.splits)

lemma notice_traceback [simp]: "list_all is_notice (traceback_code d e)"
  by (simp add: traceback_code_def)

lemma generate_weather_data_notices: "list_all is_notice (fst (generate_weather_data np now d g))"
  by (simp add: generate_weather_data_def Let_def split: prod.splits sum.splits option.splits)

lemma validate_dataframe_notices: "list_all is_notice (fst (validate_dataframe d df))"
  by (simp add: validate_dataframe_def Let_def split: sum.splits)

lemma validate_weather_frame: "snd (validate_dataframe d (weather_frame now a)) = True"
proof -
  obtain t h w where a: "a = (t, h, w)" by (cases a)
  have "filter (\<lambda>col. col \<notin> set (columns (weather_frame now a))) required_columns = []"
    by (simp add: a weather_frame_def columns_def required_columns_def)
  moreover have "\<exists>s. getitem (weather_frame now a) ''Time'' = Inr s"
    by (simp add: a weather_frame_def getitem_def)
  ultimately show ?thesis
    by (auto simp: validate_dataframe_def Let_def)
qed

lemma generate_weather_data_None:
  "fst (snd (generate_weather_data np now d g)) = None \<longleftrightarrow>
     out_of_range (fst (weather_arrays np 100 g))"
  by (cases "fst (weather_arrays np 100 g)")
     (simp add: generate_weather_data_frame validate_ranges_out_of_range split: prod.splits)

lemma dashboard_module_imported:
  "snd (dashboard_module np x now session False c g) =
     (if out_of_range (fst (weather_arrays np 100 g)) then Stopped
      else Finished (weather_frame now (fst (weather_arrays np 100 g)), session_debug session,
             snd (weather_arrays np 100 g)))"
proof -
  obtain ev df g' where r: "generate_weather_data np now (session_debug session) g = (ev, df, g')"
    by (metis prod.collapse)
  have g': "g' = snd (weather_arrays np 100 g)"
    using r by (auto simp: generate_weather_data_def Let_def split: prod.splits sum.splits)
  have df: "df = None \<longleftrightarrow> out_of_range (fst (weather_arrays np 100 g))"
    using generate_weather_data_None [of np now "session_debug session" g] r by simp
  show ?thesis
  proof (cases df)
    case None
    with df r show ?thesis by (simp add: dashboard_module_def session_debug_def Let_def)
  next
    case (Some frame)
    then have f: "frame = weather_frame now (fst (weather_arrays np 100 g))"
      using r generate_weather_data_frame [of np now "session_debug session" g]
      by (cases "fst (weather_arrays np 100 g)") (simp split: if_splits)
    obtain ev2 where v: "validate_dataframe (session_debug session) frame = (ev2, True)"
      using validate_weather_frame [of "session_debug session" now] f
      by (metis prod.collapse)
    from Some df r v g' f show ?thesis
      by (simp add: dashboard_module_def session_debug_def [symmetric] Let_def)
  qed
qed

lemma dashboard_module_notices:
  "list_all is_notice (fst (dashboard_module np x now session False c g))"
proof -
  obtain ev df g' where r: "generate_weather_data np now (session_debug session) g = (ev, df, g')"
    by (metis prod.collapse)
  have e: "list_all is_notice ev"
    using generate_weather_data_notices [of np now "session_debug session" g] r by simp
  show ?thesis
  proof (cases df)
    case None
    with r e show ?thesis by (simp add: dashboard_module_def session_debug_def [symmetric] Let_def)
  next
    case (Some frame)
    obtain ev2 ok where v: "validate_dataframe (session_debug session) frame = (ev2, ok)"
      by (metis prod.collapse)
    have "list_all is_notice ev2"
      using validate_dataframe_notices [of "session_debug session" frame] v by simp
    with Some r e v show ?thesis
      by (simp add: dashboard_module_def session_debug_def [symmetric] Let_def)
  qed
qed

lemma import_dashboard_snd:
  "snd (import_dashboard np x w now session g) =
     (if import_error w \<noteq> None \<or> out_of_range (fst (weather_arrays np 100 g)) then Stopped
      else Finished (weather_frame now (fst (weather_arrays np 100 g)), session_debug session,
             snd (weather_arrays np 100 g)))"
  by (cases "import_error w")
     (simp_all add: import_dashboard_def then_run_snd dashboard_module_imported)

lemma import_dashboard_notices:
  "list_all is_notice (fst (import_dashboard np x w now session g))"
  by (cases "import_error w")
     (simp_all add: import_dashboard_def then_run_fst dashboard_module_notices
        split: run.splits)

lemma load_regions_snd:
  "snd (load_regions w d) =
     (case read_file w of
        Inl e \<Rightarrow> Stopped
      | Inr regions_gdf \<Rightarrow> if gdf_empty regions_gdf then Stopped else Finished regions_gdf)"
  by (simp add: load_regions_def Let_def split: sum.splits exn.splits)

lemma load_regions_notices: "list_all is_notice (fst (load_regions w d))"
  by (simp add: load_regions_def Let_def split: sum.splits exn.splits)

lemma assign_temperatures_snd:
  "\<exists>g1. snd (assign_temperatures np w d regions_gdf) =
     Finished (with_temperatures np regions_gdf, g1)"
proof -
  obtain vs g1 where dr: "draw (random_uniform np (Finite 26) (Finite 34))
      (length (features regions_gdf)) (random_seed np 42) = (vs, g1)"
    by (metis prod.collapse)
  have "length vs = length (features regions_gdf)"
    using length_draw [OF dr] .
  then have "setitem regions_gdf ''Temperature'' vs = Inr (with_temperatures np regions_gdf)"
    by (simp add: setitem_def with_temperatures_def dr)
  then show ?thesis
    by (simp add: assign_temperatures_def Let_def dr)
qed

lemma assign_temperatures_notices:
  "list_all is_notice (fst (assign_temperatures np w d regions_gdf))"
  by (simp add: assign_temperatures_def Let_def split: prod.splits sum.splits)

lemma create_map_snd:
  "snd (create_map w d) = (case folium_Map_raises w of None \<Rightarrow> Finished [] | Some e \<Rightarrow> Stopped)"
  by (simp add: create_map_def Let_def split: option.splits)

lemma create_map_notices: "list_all is_notice (fst (create_map w d))"
  by (simp add: create_map_def Let_def split: option.splits)

lemma add_choropleth_snd:
  "snd (add_choropleth w d regions_gdf m) =
     (case choropleth_raises w regions_gdf of
        None \<Rightarrow> Finished (m @ [ChoroplethLayer regions_gdf])
      | Some e \<Rightarrow> Stopped)"
  by (simp add: add_choropleth_def Let_def split: option.splits exn.splits)

lemma add_choropleth_notices: "list_all is_notice (fst (add_choropleth w d regions_gdf m))"
  by (simp add: add_choropleth_def Let_def split: option.splits exn.splits)

lemma weather_map_dashboard_stops:
  "snd (weather_map_dashboard np x w now session checkbox g) = Stopped \<longleftrightarrow> fatal np w g"
proof -
  show ?thesis
  proof (cases "import_error w \<noteq> None \<or> out_of_range (fst (weather_arrays np 100 g))")
    case True
    then show ?thesis
      by (auto simp: weather_map_dashboard_def then_run_snd import_dashboard_snd fatal_def)
  next
    case ok: False
    show ?thesis
    proof (cases "read_file w")
      case (Inl e)
      with ok show ?thesis
        by (simp add: weather_map_dashboard_def then_run_snd import_dashboard_snd
            load_regions_snd fatal_def)
    next
      case (Inr r)
      obtain g1 where t: "snd (assign_temperatures np w checkbox r) =
          Finished (with_temperatures np r, g1)"
        using assign_temperatures_snd [of np w checkbox r] by blast
      show ?thesis
        using ok Inr t
        by (simp add: weather_map_dashboard_def then_run_snd import_dashboard_snd
            load_regions_snd create_map_snd add_choropleth_snd fatal_def
            split: option.splits prod.splits)
    qed
  qed
qed

subsection \<open>What a halted run has shown, and what a finished run shows\<close>

lemma then_run_stopped_notices:
  assumes "list_all is_notice (fst p)"
    and "\<And>a. snd p = Finished a \<Longrightarrow> snd (f a) = Stopped \<Longrightarrow> list_all is_notice (fst (f a))"
    and "snd (then_run p f) = Stopped"
  shows "list_all is_notice (fst (then_run p f))"
  using assms by (cases "snd p") (simp_all add: then_run_fst then_run_snd)

lemma stopped_run_notices:
  assumes "snd (weather_map_dashboard np x w now session checkbox g) = Stopped"
  shows "list_all is_notice (fst (weather_map_dashboard np x w now session checkbox g))"
  using assms unfolding weather_map_dashboard_def
  apply (rule then_run_stopped_notices [rotated 2])
   apply (rule import_dashboard_notices)
  apply (clarsimp simp only: prod.case)
  apply (rule then_run_stopped_notices, simp, simp_all only:)
  apply (rule then_run_stopped_notices, rule load_regions_notices, simp_all only:)
  apply (rule then_run_stopped_notices, rule assign_temperatures_notices, simp_all only:)
  apply (clarsimp simp only: prod.case)
  apply (rule then_run_stopped_notices, rule create_map_notices, simp_all only:)
  apply (rule then_run_stopped_notices, rule add_choropleth_notices, simp_all only:)
  apply (simp split: prod.splits)
  done

lemma finished_run_events:
  assumes "\<not> fatal np w g" and "read_file w = Inr r"
  shows "\<exists>before m. fst (weather_map_dashboard np x w now session checkbox g) =
     before @ main_interface x w checkbox (with_temperatures np r) m
       (Some (weather_frame now (fst (weather_arrays np 100 g))))"
proof -
  from assms have ok: "import_error w = None" "\<not> out_of_range (fst (weather_arrays np 100 g))"
    "\<not> gdf_empty r" "folium_Map_raises w = None"
    "choropleth_raises w (with_temperatures np r) = None"
    by (simp_all add: fatal_def)
  obtain g1 where t: "snd (assign_temperatures np w checkbox r) =
      Finished (with_temperatures np r, g1)"
    using assign_temperatures_snd [of np w checkbox r] by blast
  obtain tooltips m where tt: "add_tooltips x w checkbox (with_temperatures np r)
      [ChoroplethLayer (with_temperatures np r)] = (tooltips, m)"
    by (cases "add_tooltips x w checkbox (with_temperatures np r)
      [ChoroplethLayer (with_temperatures np r)]")
  have "fst (weather_map_dashboard np x w now session checkbox g) =
      (fst (import_dashboard np x w now session g) @
       [SidebarCheckbox (wrench @ '' Debug Mode'')] @
       fst (load_regions w checkbox) @
       fst (assign_temperatures np w checkbox r) @
       fst (create_map w checkbox) @
       fst (add_choropleth w checkbox (with_temperatures np r) []) @
       tooltips) @
      main_interface x w checkbox (with_temperatures np r) m
        (Some (weather_frame now (fst (weather_arrays np 100 g))))"
    by (simp add: weather_map_dashboard_def then_run_fst import_dashboard_snd load_regions_snd
        create_map_snd add_choropleth_snd t tt ok assms(2))
  then show ?thesis by blast
qed

lemma tabs_in_main_interface: "tabs \<in> set (main_interface x w d r m df)"
  by (simp add: main_interface_def tabs_def)

lemma tabs_rendered:
  "tabs \<in> set (fst (weather_map_dashboard np x w now session checkbox g)) \<longleftrightarrow> \<not> fatal np w g"
proof (cases "fatal np w g")
  case True
  then have "list_all is_notice (fst (weather_map_dashboard np x w now session checkbox g))"
    by (simp add: stopped_run_notices weather_map_dashboard_stops)
  then have "tabs \<notin> set (fst (weather_map_dashboard np x w now session checkbox g))"
    by (auto simp: list_all_iff tabs_def)
  with True show ?thesis by simp
next
  case False
  then obtain r where "read_file w = Inr r"
    by (cases "read_file w") (simp_all add: fatal_def)
  from finished_run_events [OF False this, of x now session checkbox]
  show ?thesis
    using False tabs_in_main_interface by fastforce
qed

lemma dashboard_module_stopped_events:
  assumes "out_of_range (fst (weather_arrays np 100 g))"
  shows "\<exists>before msg. fst (dashboard_module np x now session False c g) = before @ [StError msg]"
proof -
  obtain ev df g' where r: "generate_weather_data np now (session_debug session) g = (ev, df, g')"
    by (metis prod.collapse)
  have "df = None"
    using generate_weather_data_None [of np now "session_debug session" g] r assms by simp
  with r show ?thesis
    by (simp add: dashboard_module_def session_debug_def [symmetric] Let_def)
qed

lemma import_dashboard_stopped_events:
  assumes "snd (import_dashboard np x w now session g) = Stopped"
  shows "\<exists>before msg. fst (import_dashboard np x w now session g) = before @ [StError msg]"
proof (cases "import_error w")
  case None
  with assms have o: "out_of_range (fst (weather_arrays np 100 g))"
    by (simp add: import_dashboard_snd split: if_splits)
  from dashboard_module_stopped_events [OF o, of x now session False]
  obtain before msg where
    "fst (dashboard_module np x now session False False g) = before @ [StError msg]"
    by blast
  with None o show ?thesis
    by (simp add: import_dashboard_def then_run_fst dashboard_module_imported)
next
  case (Some e)
  then show ?thesis by (simp add: import_dashboard_def)
qed

lemma load_regions_unavailable:
  assumes "geometry_unavailable w"
  shows "\<exists>before. fst (load_regions w d) =
           before @ [StError (geometry_error w)] @
           (case read_file w of
              Inl (FileNotFoundError m) \<Rightarrow> []
            | Inl e \<Rightarrow> traceback_code d e
            | Inr regions_gdf \<Rightarrow> [])"
  using assms
  by (auto simp: geometry_unavailable_def geometry_error_def load_regions_def Let_def
      split: sum.splits exn.splits)

lemma unavailable_fatal: "geometry_unavailable w \<Longrightarrow> fatal np w g"
  by (auto simp: geometry_unavailable_def fatal_def split: sum.splits exn.splits)

lemma unavailable_run_events:
  assumes "geometry_unavailable w" and "snd (import_dashboard np x w now session g) \<noteq> Stopped"
  shows "fst (weather_map_dashboard np x w now session checkbox g) =
     fst (import_dashboard np x w now session g) @
     [SidebarCheckbox (wrench @ '' Debug Mode'')] @ fst (load_regions w checkbox)"
proof -
  have "snd (load_regions w checkbox) = Stopped"
    using assms(1)
    by (auto simp: geometry_unavailable_def load_regions_snd split: sum.splits exn.splits)
  moreover obtain a where "snd (import_dashboard np x w now session g) = Finished a"
    using assms(2) by (cases "snd (import_dashboard np x w now session g)") simp_all
  ultimately show ?thesis
    by (simp add: weather_map_dashboard_def then_run_fst split: prod.splits)
qed

lemma generate_weather_data_quiet:
  assumes "\<not> out_of_range (fst (weather_arrays np 100 g))"
  shows "fst (generate_weather_data np now False g) = []"
proof -
  obtain t h w g' where a: "weather_arrays np 100 g = ((t, h, w), g')"
    by (metis prod.collapse)
  with assms have v: "validate_ranges t h w = None"
    by (simp add: validate_ranges_out_of_range)
  note l = weather_arrays_lengths [OF a]
  have ok: "pd_DataFrame (weather_frame now (t, h, w)) = Inr (weather_frame now (t, h, w))"
    by (simp add: pd_DataFrame_def weather_frame_def df_len_def float_series_def l time_index_def)
  show ?thesis
    using ok
    by (simp add: generate_weather_data_def a v Let_def debug_print_def weather_frame_def
        time_index_def)
qed

lemma validate_weather_frame_quiet:
  assumes "\<not> has_null (weather_frame now a)"
  shows "validate_dataframe False (weather_frame now a) = ([], True)"
proof -
  obtain t h w where a: "a = (t, h, w)" by (cases a)
  have m: "filter (\<lambda>col. col \<notin> set (columns (weather_frame now a))) required_columns = []"
    by (simp add: a weather_frame_def columns_def required_columns_def)
  have t: "getitem (weather_frame now a) ''Time'' =
      Inr \<lparr>dtype = Datetime64, cells = map CTime (time_index now)\<rparr>"
    by (simp add: a weather_frame_def getitem_def)
  have n: "\<not> list_ex (\<lambda>(_, n). n \<noteq> 0) (isnull_sum (weather_frame now a))"
    using assms by (simp add: isnull_sum_flags)
  show ?thesis
    using n by (simp add: validate_dataframe_def Let_def m t debug_print_def
        is_datetime64_any_dtype_def)
qed

lemma no_null_finite: "\<not> list_ex isnull (map CFloat (map (\<lambda>i. Finite (f i)) xs))"
  by (induction xs) simp_all

lemma no_null_times: "\<not> list_ex isnull (map CTime ts)"
  by (induction ts) simp_all

lemma toy_no_null: "\<not> has_null (weather_frame now (fst (weather_arrays (toy_numpy 0) 100 g)))"
  unfolding toy_weather_arrays weather_frame_def has_null_def float_series_def prod.case
    list_ex_Nil_iff list_ex_Cons_iff series.select_convs
  by (simp only: no_null_finite no_null_times simp_thms)

lemma toy_import:
  assumes "import_error w = None"
  shows "import_dashboard (toy_numpy 0) x w now None g =
     ([StSuccess (check_mark @ '' Successfully imported dashboard module'')],
      Finished (weather_frame now (fst (weather_arrays (toy_numpy 0) 100 g)), False,
        snd (weather_arrays (toy_numpy 0) 100 g)))"
proof -
  have s: "snd (import_dashboard (toy_numpy 0) x w now None g) =
      Finished (weather_frame now (fst (weather_arrays (toy_numpy 0) 100 g)), False,
        snd (weather_arrays (toy_numpy 0) 100 g))"
    by (simp add: import_dashboard_snd assms toy_numpy_calm session_debug_def)
  obtain ev df g' where r: "generate_weather_data (toy_numpy 0) now False g = (ev, df, g')"
    by (metis prod.collapse)
  have ev: "ev = []"
    using generate_weather_data_quiet [OF toy_numpy_calm [of g], of now] r by simp
  have df: "df = Some (weather_frame now (fst (weather_arrays (toy_numpy 0) 100 g)))"
    using generate_weather_data_frame [of "toy_numpy 0" now False g] r toy_numpy_calm [of g]
    by (cases "fst (weather_arrays (toy_numpy 0) 100 g)")
       (simp add: validate_ranges_out_of_range)
  have "fst (dashboard_module (toy_numpy 0) x now None False False g) = []"
    by (simp add: dashboard_module_def r ev df validate_weather_frame_quiet [OF toy_no_null])
  then have "fst (import_dashboard (toy_numpy 0) x w now None g) =
      [StSuccess (check_mark @ '' Successfully imported dashboard module'')]"
    using s
    by (simp add: import_dashboard_def assms then_run_fst dashboard_module_imported
        toy_numpy_calm split: run.splits)
  with s show ?thesis by (metis prod.collapse)
qed

lemma toy_not_fatal: "\<not> fatal (toy_numpy 0) toy_mapenv g"
  by (simp add: fatal_def toy_numpy_calm toy_mapenv_def toy_regions_def gdf_empty_def
      with_temperatures_def)

text \<open>The time-series script, run on its own or imported, is halted by one thing only.\<close>

lemma dashboard_module_stops:
  "snd (dashboard_module np x now session is_main c g) = Stopped \<longleftrightarrow>
     out_of_range (fst (weather_arrays np 100 g))"
proof -
  obtain ev df g' where r: "generate_weather_data np now (session_debug session) g = (ev, df, g')"
    by (metis prod.collapse)
  have df: "df = None \<longleftrightarrow> out_of_range (fst (weather_arrays np 100 g))"
    using generate_weather_data_None [of np now "session_debug session" g] r by simp
  show ?thesis
  proof (cases df)
    case None
    with df r show ?thesis by (simp add: dashboard_module_def session_debug_def Let_def)
  next
    case (Some frame)
    then have f: "frame = weather_frame now (fst (weather_arrays np 100 g))"
      using r generate_weather_data_frame [of np now "session_debug session" g]
      by (cases "fst (weather_arrays np 100 g)") (simp split: if_splits)
    obtain ev2 where v: "validate_dataframe (session_debug session) frame = (ev2, True)"
      using validate_weather_frame [of "session_debug session" now] f
      by (metis prod.collapse)
    from Some df r v show ?thesis
      by (simp add: dashboard_module_def session_debug_def [symmetric] Let_def)
  qed
qed

subsection \<open>Fatal conditions\<close>

text \<open>
  Claim C2 says that exactly two conditions halt all further rendering, the boundary
  file being missing or empty and the synthetic series failing range validation, and
  that every other failure is caught locally. It is not so: with a boundary file that is
  present and not empty, and a series in range, a choropleth that cannot be built (here
  the features have no \<open>region\<close> property, a \<open>KeyError\<close>) halts the run after one
  error, before the title and the tabs.
\<close>

theorem choropleth_failure_is_fatal:
  "read_file toy_unnamed = Inr unnamed_regions \<and>
   \<not> gdf_empty unnamed_regions \<and>
   \<not> out_of_range (fst (weather_arrays (toy_numpy 0) 100 0)) \<and>
   weather_map_dashboard (toy_numpy 0) toy_ext toy_unnamed (\<lambda>i. 0) None False 0 =
     ([StSuccess (check_mark @ '' Successfully imported dashboard module''),
       SidebarCheckbox (wrench @ '' Debug Mode''),
       StError (cross_mark @ '' Missing required column: '' @ py_repr ''region'')],
      Stopped)"
proof -
  have i: "import_error toy_unnamed = None"
    by (simp add: toy_unnamed_def toy_mapenv_def)
  note imp = toy_import [OF i, of toy_ext "\<lambda>i. 0" 0]
  have r: "read_file toy_unnamed = Inr unnamed_regions"
    by (simp add: toy_unnamed_def)
  have e: "\<not> gdf_empty unnamed_regions"
    by (simp add: gdf_empty_def unnamed_regions_def)
  have l: "load_regions toy_unnamed False = ([], Finished unnamed_regions)"
    by (simp add: load_regions_def r e debug_print_def)
  have a: "\<exists>g1. assign_temperatures (toy_numpy 0) toy_unnamed False unnamed_regions =
      ([], Finished (with_temperatures (toy_numpy 0) unnamed_regions, g1))"
    using assign_temperatures_snd [of "toy_numpy 0" toy_unnamed False unnamed_regions]
    by (auto simp: assign_temperatures_def Let_def debug_print_def split: prod.splits sum.splits)
  have m: "create_map toy_unnamed False = ([], Finished [])"
    by (simp add: create_map_def toy_unnamed_def toy_mapenv_def debug_print_def)
  have c: "add_choropleth toy_unnamed False (with_temperatures (toy_numpy 0) unnamed_regions) [] =
      ([StError (cross_mark @ '' Missing required column: '' @ py_repr ''region'')], Stopped)"
    by (simp add: add_choropleth_def toy_unnamed_def toy_mapenv_def debug_print_def
        with_temperatures_def unnamed_regions_def)
  from a obtain g1 where a': "assign_temperatures (toy_numpy 0) toy_unnamed False unnamed_regions =
      ([], Finished (with_temperatures (toy_numpy 0) unnamed_regions, g1))" by blast
  have "weather_map_dashboard (toy_numpy 0) toy_ext toy_unnamed (\<lambda>i. 0) None False 0 =
     ([StSuccess (check_mark @ '' Successfully imported dashboard module''),
       SidebarCheckbox (wrench @ '' Debug Mode''),
       StError (cross_mark @ '' Missing required column: '' @ py_repr ''region'')],
      Stopped)"
    by (simp add: weather_map_dashboard_def imp then_run_def l a' m c)
  with r e toy_numpy_calm [of 0] show ?thesis by simp
qed

text \<open>
  Claim C2, amended. A run of the map script is halted exactly when one of these holds:
  the dashboard module cannot be imported; the synthetic series fails range validation
  (the import runs the generator); the boundary file cannot be read, whatever the
  reason, or is empty; the base map cannot be created; the choropleth layer cannot be
  added. Nothing else halts it: in particular a tooltip, the display of the map, a
  metric and the time-series chart may fail without any effect on whether the run is
  halted, and the tabs are rendered exactly when none of the five conditions holds. A
  run of the time-series script is halted exactly when the series fails range
  validation.
\<close>

theorem fatal_conditions:
  "(snd (weather_map_dashboard np x w now session checkbox g) = Stopped \<longleftrightarrow> fatal np w g) \<and>
   (tabs \<in> set (fst (weather_map_dashboard np x w now session checkbox g)) \<longleftrightarrow>
      \<not> fatal np w g) \<and>
   (snd (dashboard_module np x now session is_main checkbox g) = Stopped \<longleftrightarrow>
      out_of_range (fst (weather_arrays np 100 g)))"
  by (simp add: weather_map_dashboard_stops tabs_rendered dashboard_module_stops)

theorem fatal_conditions_witness:
  "\<not> fatal (toy_numpy 0) toy_mapenv 0 \<and>
   snd (weather_map_dashboard (toy_numpy 0) toy_ext toy_mapenv (\<lambda>i. 0) None False 0) \<noteq> Stopped \<and>
   tabs \<in> set (fst (weather_map_dashboard (toy_numpy 0) toy_ext toy_mapenv (\<lambda>i. 0) None False 0))"
  using fatal_conditions [of "toy_numpy 0" toy_ext toy_mapenv "\<lambda>i. 0" None False 0 False]
    toy_not_fatal [of 0]
  by simp

subsection \<open>A missing boundary file\<close>

text \<open>
  Claim C7 says that with the boundary file absent or empty the map script stops before
  rendering any part of the UI. The script does stop, but not on an empty page: the
  banner of the successful import (line 15) and the sidebar checkbox (line 25) are
  rendered before the file is read.
\<close>

theorem missing_geometry_partial_render:
  "read_file toy_missing = Inl (FileNotFoundError ''No such file or directory'') \<and>
   weather_map_dashboard (toy_numpy 0) toy_ext toy_missing (\<lambda>i. 0) None False 0 =
     ([StSuccess (check_mark @ '' Successfully imported dashboard module''),
       SidebarCheckbox (wrench @ '' Debug Mode''),
       StError (cross_mark @ '' File '' @ py_repr geojson_file @
         '' not found. Please ensure the file exists in the current directory.'')],
      Stopped)"
proof -
  have u: "geometry_unavailable toy_missing"
    by (simp add: geometry_unavailable_def toy_missing_def)
  have i: "import_error toy_missing = None"
    by (simp add: toy_missing_def toy_mapenv_def)
  note imp = toy_import [OF i, of toy_ext "\<lambda>i. 0" 0]
  have l: "fst (load_regions toy_missing False) = [StError (geometry_error toy_missing)]"
    by (simp add: load_regions_def geometry_error_def toy_missing_def debug_print_def)
  have "fst (weather_map_dashboard (toy_numpy 0) toy_ext toy_missing (\<lambda>i. 0) None False 0) =
     [StSuccess (check_mark @ '' Successfully imported dashboard module''),
       SidebarCheckbox (wrench @ '' Debug Mode''),
       StError (geometry_error toy_missing)]"
    using unavailable_run_events [OF u, of "toy_numpy 0" toy_ext "\<lambda>i. 0" None 0 False]
    by (simp add: imp l)
  moreover have "snd (weather_map_dashboard (toy_numpy 0) toy_ext toy_missing (\<lambda>i. 0) None False 0) = Stopped"
    by (simp add: weather_map_dashboard_stops unavailable_fatal [OF u])
  moreover have "geometry_error toy_missing = cross_mark @ '' File '' @ py_repr geojson_file @
         '' not found. Please ensure the file exists in the current directory.''"
    by (simp add: geometry_error_def toy_missing_def)
  ultimately show ?thesis
    by (simp add: prod_eq_iff toy_missing_def)
qed

text \<open>
  Claim C7, amended. If the boundary file is absent or empty, the map script stops
  before rendering the main interface: no title, no tabs, no map, no metric, no chart
  and no table is produced. The page holds notices only, an error among them. Unless
  the import of the dashboard module has already halted the run with an error of its
  own, the page is: what the import showed (ending with its banner), the sidebar
  checkbox, debug lines when debug mode is on, the error for the file, and after it
  nothing but the traceback that debug mode adds to an unexpected exception.
\<close>

theorem missing_geometry_is_fatal:
  assumes "geometry_unavailable w"
  shows "snd (weather_map_dashboard np x w now session checkbox g) = Stopped \<and>
         list_all is_notice (fst (weather_map_dashboard np x w now session checkbox g)) \<and>
         list_ex is_st_error (fst (weather_map_dashboard np x w now session checkbox g)) \<and>
         (snd (import_dashboard np x w now session g) = Stopped \<or>
          (\<exists>debug_lines.
             fst (weather_map_dashboard np x w now session checkbox g) =
               fst (import_dashboard np x w now session g) @
               [SidebarCheckbox (wrench @ '' Debug Mode'')] @
               debug_lines @ [StError (geometry_error w)] @
               (case read_file w of
                  Inl (FileNotFoundError m) \<Rightarrow> []
                | Inl e \<Rightarrow> traceback_code checkbox e
                | Inr regions_gdf \<Rightarrow> [])))"
proof -
  let ?run = "weather_map_dashboard np x w now session checkbox g"
  have stopped: "snd ?run = Stopped"
    using assms by (simp add: weather_map_dashboard_stops unavailable_fatal)
  have notices: "list_all is_notice (fst ?run)"
    using stopped by (rule stopped_run_notices)
  show ?thesis
  proof (cases "snd (import_dashboard np x w now session g) = Stopped")
    case True
    then have "fst ?run = fst (import_dashboard np x w now session g)"
      by (simp add: weather_map_dashboard_def then_run_fst)
    with import_dashboard_stopped_events [OF True] have "list_ex is_st_error (fst ?run)"
      by auto
    with stopped notices True show ?thesis by blast
  next
    case False
    from load_regions_unavailable [OF assms, of checkbox] obtain before where
      l: "fst (load_regions w checkbox) =
           before @ [StError (geometry_error w)] @
           (case read_file w of
              Inl (FileNotFoundError m) \<Rightarrow> []
            | Inl e \<Rightarrow> traceback_code checkbox e
            | Inr regions_gdf \<Rightarrow> [])"
      by blast
    have e: "fst ?run = fst (import_dashboard np x w now session g) @
        [SidebarCheckbox (wrench @ '' Debug Mode'')] @
        before @ [StError (geometry_error w)] @
        (case read_file w of
           Inl (FileNotFoundError m) \<Rightarrow> []
         | Inl e \<Rightarrow> traceback_code checkbox e
         | Inr regions_gdf \<Rightarrow> [])"
      using unavailable_run_events [OF assms False, of checkbox] l by simp
    then have "list_ex is_st_error (fst ?run)"
      by simp
    with stopped notices e show ?thesis by blast
  qed
qed

theorem missing_geometry_is_fatal_witness:
  "geometry_unavailable toy_empty \<and>
   weather_map_dashboard (toy_numpy 0) toy_ext toy_empty (\<lambda>i. 0) None False 0 =
     ([StSuccess (check_mark @ '' Successfully imported dashboard module''),
       SidebarCheckbox (wrench @ '' Debug Mode''),
       StError (cross_mark @ '' No data found in the GeoJSON file'')],
      Stopped)"
proof -
  have u: "geometry_unavailable toy_empty"
    by (simp add: geometry_unavailable_def toy_empty_def gdf_empty_def)
  have i: "import_error toy_empty = None"
    by (simp add: toy_empty_def toy_mapenv_def)
  note imp = toy_import [OF i, of toy_ext "\<lambda>i. 0" 0]
  have l: "fst (load_regions toy_empty False) =
      [StError (cross_mark @ '' No data found in the GeoJSON file'')]"
    by (simp add: load_regions_def toy_empty_def gdf_empty_def debug_print_def)
  have "fst (weather_map_dashboard (toy_numpy 0) toy_ext toy_empty (\<lambda>i. 0) None False 0) =
     [StSuccess (check_mark @ '' Successfully imported dashboard module''),
       SidebarCheckbox (wrench @ '' Debug Mode''),
       StError (cross_mark @ '' No data found in the GeoJSON file'')]"
    using unavailable_run_events [OF u, of "toy_numpy 0" toy_ext "\<lambda>i. 0" None 0 False]
    by (simp add: imp l)
  moreover have
    "snd (weather_map_dashboard (toy_numpy 0) toy_ext toy_empty (\<lambda>i. 0) None False 0) = Stopped"
    by (rule missing_geometry_is_fatal [OF u, THEN conjunct1])
  ultimately show ?thesis
    using u by (simp add: prod_eq_iff)
qed

section \<open>Region temperatures\<close>

text \<open>
  The map script assigns to each region one draw of the uniform sampler for the bounds
  26 and 34, taken in row order after the generator is seeded with 42, and nothing else
  touches the values. So every property that all draws of the sampler share is a
  property of every region's temperature. Whether the draws lie in the half-open
  interval is a matter of the sampler's floating-point arithmetic, not of the script.
\<close>

lemma row_set_lookup: "map_of (row_set r label c) label = Some c"
proof (cases "label \<in> fst ` set r")
  case True
  then have "map_of (map (\<lambda>(k, v). if k = label then (k, c) else (k, v)) r) label = Some c"
    by (induction r) (auto split: prod.splits)
  with True show ?thesis by (simp add: row_set_def)
next
  case False
  then have "map_of r label = None"
    by (simp add: map_of_eq_None_iff)
  with False show ?thesis by (simp add: row_set_def map_add_def)
qed

lemma assigned_temperatures:
  "map (\<lambda>r. map_of r ''Temperature'') (features (with_temperatures np regions_gdf)) =
     map (\<lambda>v. Some (CFloat v))
       (fst (draw (random_uniform np (Finite 26) (Finite 34))
               (length (features regions_gdf)) (random_seed np 42)))"
proof -
  obtain vs g1 where d: "draw (random_uniform np (Finite 26) (Finite 34))
      (length (features regions_gdf)) (random_seed np 42) = (vs, g1)"
    by (metis prod.collapse)
  have l: "length vs = length (features regions_gdf)"
    using length_draw [OF d] .
  have "map (\<lambda>r. map_of r ''Temperature'')
          (map (\<lambda>(r, v). row_set r ''Temperature'' (CFloat v)) (zip rs vs)) =
        map (\<lambda>v. Some (CFloat v)) vs" if "length vs = length rs" for rs :: "row list"
    using that by (induction rs vs rule: list_induct2') (simp_all add: row_set_lookup)
  with l show ?thesis
    by (simp add: with_temperatures_def d)
qed

lemma draw_all:
  assumes "\<And>g. P (fst (d g))"
  shows "list_all P (fst (draw d n g))"
proof (induction n arbitrary: g)
  case 0
  then show ?case by simp
next
  case (Suc n)
  obtain v g1 where s: "d g = (v, g1)" by (cases "d g")
  obtain vs g2 where r: "draw d n g1 = (vs, g2)" by (cases "draw d n g1")
  from assms [of g] s have "P v" by simp
  moreover from Suc [of g1] r have "list_all P vs" by simp
  ultimately show ?case by (simp add: s r)
qed

lemma assigned_temperatures_share:
  assumes "\<And>g. P (fst (random_uniform np (Finite 26) (Finite 34) g))"
  shows "list_all (\<lambda>r. \<exists>v. map_of r ''Temperature'' = Some (CFloat v) \<and> P v)
           (features (with_temperatures np regions_gdf))"
proof -
  let ?vs = "fst (draw (random_uniform np (Finite 26) (Finite 34))
               (length (features regions_gdf)) (random_seed np 42))"
  have "list_all P ?vs"
    using assms by (rule draw_all)
  then have "list_all (\<lambda>c. \<exists>v. c = Some (CFloat v) \<and> P v) (map (\<lambda>v. Some (CFloat v)) ?vs)"
    by (simp add: list_all_iff)
  then have "list_all (\<lambda>c. \<exists>v. c = Some (CFloat v) \<and> P v)
      (map (\<lambda>r. map_of r ''Temperature'') (features (with_temperatures np regions_gdf)))"
    by (simp only: assigned_temperatures)
  then show ?thesis
    by (simp add: list_all_iff)
qed

end
